theory Spec2Isabelle
  imports Main "HOL-Library.Word"
begin

section \<open>The keyword table (gcode\_keywords.generated.c)\<close>

text \<open>
  C strings are modelled as \<^typ>\<open>string\<close>: the bytes before the terminating NUL.
  \<open>str_head\<close> is the C expression \<^verbatim>\<open>*str\<close>, which is the NUL byte for the empty string.
\<close>

definition str_head :: "string \<Rightarrow> char" where
  "str_head s = (case s of [] \<Rightarrow> CHR 0x00 | c # _ \<Rightarrow> c)"

definition TOTAL_KEYWORDS :: nat where "TOTAL_KEYWORDS = 24"
definition MIN_WORD_LENGTH :: nat where "MIN_WORD_LENGTH = 1"
definition MAX_WORD_LENGTH :: nat where "MAX_WORD_LENGTH = 8"
definition MIN_HASH_VALUE :: nat where "MIN_HASH_VALUE = 1"
definition MAX_HASH_VALUE :: nat where "MAX_HASH_VALUE = 32"

text \<open>The table \<^verbatim>\<open>asso_values\<close> of the generated hash function, all 256 entries.\<close>

definition asso_values :: "nat list" where
  "asso_values =
    [ 33, 33, 33, 33, 33, 33, 33, 33, 33, 33,
       4, 33, 33, 33, 33, 33, 33, 33, 33, 33,
      33, 33, 33, 33, 33, 33, 33, 33, 33, 33,
      33, 33, 33, 31, 33, 33, 33, 26, 33, 33,
      28, 23, 15, 18, 13,  8, 30, 25, 33, 33,
      33, 33, 33, 33, 33, 33, 33, 33, 33, 33,
      10, 20,  5, 33, 33, 10, 33, 33, 33,  0,
      33, 33, 33,  0, 33, 33, 33, 33,  0, 20,
      33, 33, 33, 33, 33, 33, 33, 33, 33, 33,
      33, 33, 33, 33, 33, 33, 33, 33, 33, 33,
      33, 33, 33, 33, 33, 33, 33, 33, 33, 33,
      33, 33, 33, 33, 33, 33, 33, 33, 33, 33,
      33, 33, 33, 33, 33, 33,  0, 33, 33, 33,
      33, 33, 33, 33, 33, 33, 33, 33, 33, 33,
      33, 33, 33, 33, 33, 33, 33, 33, 33, 33,
      33, 33, 33, 33, 33, 33, 33, 33, 33, 33,
      33, 33, 33, 33, 33, 33, 33, 33, 33, 33,
      33, 33, 33, 33, 33, 33, 33, 33, 33, 33,
      33, 33, 33, 33, 33, 33, 33, 33, 33, 33,
      33, 33, 33, 33, 33, 33, 33, 33, 33, 33,
      33, 33, 33, 33, 33, 33, 33, 33, 33, 33,
      33, 33, 33, 33, 33, 33, 33, 33, 33, 33,
      33, 33, 33, 33, 33, 33, 33, 33, 33, 33,
      33, 33, 33, 33, 33, 33, 33, 33, 33, 33,
      33, 33, 33, 33, 33, 33, 33, 33, 33, 33,
      33, 33, 33, 33, 33, 33 ]"

text \<open>\<^verbatim>\<open>hash (str, len)\<close>: \<^verbatim>\<open>len + asso_values[(unsigned char)str[0]]\<close>.\<close>

definition hash :: "string \<Rightarrow> nat \<Rightarrow> nat" where
  "hash str len = len + asso_values ! (of_char (str_head str))"

text \<open>
  \<^verbatim>\<open>struct GCodeKeywordDetail { const char* name; int id; }\<close> as a pair. An entry
  written \<^verbatim>\<open>{""}\<close> in the source has the empty name and the id 0.
\<close>

type_synonym GCodeKeywordDetail = "string \<times> int"

definition wordlist :: "GCodeKeywordDetail list" where
  "wordlist =
    [ ('''', 0),
      (''~'', 266),
      (''IF'', 278),
      (''NAN'', 284),
      (''ELSE'', 279),
      ([CHR 0x0A], 262),
      (''>'', 274),
      (''>='', 276),
      (''INFINITY'', 285),
      (''-'', 268),
      ('''', 0),
      (''<'', 273),
      (''<='', 275),
      (''AND'', 264),
      ('','', 281),
      ('''', 0),
      (''*'', 271),
      (''**'', 270),
      ('''', 0),
      (''+'', 267),
      ('''', 0),
      (''='', 265),
      (''OR'', 263),
      ('''', 0),
      ('')'', 283),
      ('''', 0),
      (''/'', 272),
      (''%'', 269),
      ('''', 0),
      (''('', 282),
      ('''', 0),
      (''.'', 280),
      (''!'', 277) ]"

text \<open>
  \<^verbatim>\<open>gcode_keyword_lookup (str, len)\<close>. The result is the entry found, or \<open>None\<close> for the
  null pointer. The test \<^verbatim>\<open>*str == *s && !strcmp (str + 1, s + 1)\<close> compares the first
  bytes and then the rest of the two strings.
\<close>

definition gcode_keyword_lookup :: "string \<Rightarrow> nat \<Rightarrow> GCodeKeywordDetail option" where
  "gcode_keyword_lookup str len =
    (if len \<le> MAX_WORD_LENGTH \<and> len \<ge> MIN_WORD_LENGTH then
       (let key = hash str len in
        if key \<le> MAX_HASH_VALUE then
          (let s = fst (wordlist ! key) in
           if str_head str = str_head s \<and> tl str = tl s then Some (wordlist ! key)
           else None)
        else None)
     else None)"

text \<open>The keywords of the table with their token ids, in the order of the word list.\<close>

definition keyword_ids :: "(string \<times> int) list" where
  "keyword_ids = filter (\<lambda>e. fst e \<noteq> []) wordlist"


section \<open>The lexer (gcode\_lexer.c): data\<close>

datatype state_t =
    SCAN_NEWLINE
  | SCAN_ERROR
  | SCAN_LINENO
  | SCAN_AFTER_LINENO
  | SCAN_COMMAND_NAME
  | SCAN_ARGS
  | SCAN_EXTENDED_KEY
  | SCAN_AFTER_EXTENDED_KEY
  | SCAN_AFTER_EXTENDED_SEPARATOR
  | SCAN_AFTER_TRADITIONAL_KEY
  | SCAN_ARG_VALUE
  | SCAN_COMMENT
  | SCAN_EMPTY_LINE_COMMENT
  | SCAN_EXPR
  | SCAN_AFTER_EXPR
  | SCAN_SYMBOL
  | SCAN_IDENTIFIER
  | SCAN_STR
  | SCAN_STR_ESCAPE
  | SCAN_STR_OCTAL
  | SCAN_STR_HEX
  | SCAN_STR_LOW_UNICODE
  | SCAN_STR_HIGH_UNICODE
  | SCAN_NUMBER_BASE
  | SCAN_DECIMAL
  | SCAN_HEX
  | SCAN_BINARY
  | SCAN_OCTAL
  | SCAN_DOT
  | SCAN_DECIMAL_FLOAT
  | SCAN_DECIMAL_FRACTION
  | SCAN_DECIMAL_EXPONENT_SIGN
  | SCAN_DECIMAL_EXPONENT
  | SCAN_HEX_FLOAT
  | SCAN_HEX_FRACTION
  | SCAN_HEX_EXPONENT_SIGN
  | SCAN_HEX_EXPONENT

datatype arg_mode_t = ARG_TRADITIONAL | ARG_EXTENDED | ARG_RAW

text \<open>
  Modelled from the spec: the type \<^verbatim>\<open>GCodeLocation\<close> is declared in gcode\_lexer.h, which
  is not among the sources. The spec describes it as the record
  \<open>(first_line, first_column, last_line, last_column)\<close>; the lexer stores its own
  \<^verbatim>\<open>uint32_t\<close> line and column there.
\<close>

record GCodeLocation =
  first_line :: "32 word"
  first_column :: "32 word"
  last_line :: "32 word"
  last_column :: "32 word"

text \<open>
  Modelled from the spec: the emission callbacks (\<^verbatim>\<open>lex_error\<close>, \<^verbatim>\<open>lex_keyword\<close>, ...) are
  external functions declared in gcode\_lexer.h, which is not among the sources. Each is
  called with the lexer's context pointer and returns a boolean; the lexer passes
  \<^verbatim>\<open>token_str\<close> to \<^verbatim>\<open>lex_keyword\<close>, \<^verbatim>\<open>lex_identifier\<close> and \<^verbatim>\<open>lex_str_literal\<close>, and
  \<^verbatim>\<open>lex_int_literal\<close> takes an \<^verbatim>\<open>int64_t\<close>, as the spec says and as the parser defines it.
  A call is recorded with its arguments: a \<^verbatim>\<open>const char*\<close> argument as the C string it
  points to, the \<^verbatim>\<open>double\<close> of \<^verbatim>\<open>lex_float_literal\<close> as the text that \<^verbatim>\<open>strtod\<close>
  converted.
\<close>

datatype call =
    lex_error string
  | lex_keyword string
  | lex_identifier string
  | lex_str_literal string
  | lex_int_literal "64 word"
  | lex_float_literal string
  | lex_bridge
  | lex_end_statement

text \<open>
  \<^verbatim>\<open>struct GCodeLexer\<close>. What the opaque \<^verbatim>\<open>context\<close> pointer refers to is the callbacks'
  own state; it is modelled by \<open>ctx\<close>, the calls made so far, oldest first.
  \<open>token_str\<close> is the whole allocation behind the pointer, the empty list for the null
  pointer; \<^verbatim>\<open>token_limit\<close> is its size. \<^verbatim>\<open>size_t\<close> is 64 bits wide for the nesting
  counter; the buffer sizes, which are bounded by the memory, are natural numbers.
\<close>

record GCodeLexer =
  ctx :: "call list"
  state :: state_t
  token_str :: string
  token_length :: nat
  error_str :: string
  error_limit :: nat
  expr_nesting :: "64 word"
  int_value :: "64 word"
  digit_count :: "8 word"
  line :: "32 word"
  column :: "32 word"
  arg_mode :: arg_mode_t
  after_str :: state_t
  in_arg_value :: bool
  location :: "GCodeLocation option"

definition token_limit :: "GCodeLexer \<Rightarrow> nat" where
  "token_limit l = length (token_str l)"

text \<open>
  What the lexer takes from its surroundings:
  \<^item> \<open>returns\<close>: the boolean a callback returns, given the calls made before it and the
    call itself (a callback sees its context and its arguments, nothing of the lexer);
  \<^item> \<open>heap_byte\<close>: the byte that \<^verbatim>\<open>malloc\<close> or \<^verbatim>\<open>realloc\<close> leaves at an offset of the
    token buffer when that offset is first allocated (C does not initialise it);
  \<^item> \<open>strtod_consumed\<close>: how many bytes of a text \<^verbatim>\<open>strtod\<close> converts (its \<^verbatim>\<open>end\<close> pointer);
  \<^item> \<open>wctomb\<close>: the multi-byte encoding of a wide character in the current locale,
    \<open>None\<close> for the result -1;
  \<^item> \<open>malloc_lexer\<close>: the content of the \<^verbatim>\<open>malloc\<close>ed structure before
    \<^verbatim>\<open>gcode_lexer_new\<close> assigns its fields.
  Allocation is taken to succeed: \<^verbatim>\<open>malloc\<close> and \<^verbatim>\<open>realloc\<close> never return null and
  \<^verbatim>\<open>vsnprintf\<close> never fails, so the out-of-memory branches of \<^verbatim>\<open>error_printf\<close>,
  \<^verbatim>\<open>token_alloc\<close> and \<^verbatim>\<open>gcode_lexer_new\<close> are not taken, \<^verbatim>\<open>token_char\<close>,
  \<^verbatim>\<open>terminate_token\<close> and \<^verbatim>\<open>add_str_wchar\<close> return true, and \<^verbatim>\<open>lex_error\<close>, which
  only those branches call, is never called.
\<close>

record env =
  returns :: "call list \<Rightarrow> call \<Rightarrow> bool"
  heap_byte :: "nat \<Rightarrow> char"
  strtod_consumed :: "string \<Rightarrow> nat"
  wctomb :: "64 word \<Rightarrow> string option"
  malloc_lexer :: GCodeLexer

section \<open>The lexer: helpers\<close>

abbreviation NL :: char where "NL \<equiv> CHR 0x0A"
abbreviation NUL :: char where "NUL \<equiv> CHR 0x00"
abbreviation DQUOTE :: char where "DQUOTE \<equiv> CHR 0x22"
abbreviation SQUOTE :: char where "SQUOTE \<equiv> CHR 0x27"
abbreviation BACKSLASH :: char where "BACKSLASH \<equiv> CHR 0x5C"
abbreviation BACKQUOTE :: char where "BACKQUOTE \<equiv> CHR 0x60"
abbreviation ENTER_EXPR :: char where "ENTER_EXPR \<equiv> CHR 0x7B"
abbreviation EXIT_EXPR :: char where "EXIT_EXPR \<equiv> CHR 0x7D"

text \<open>
  \<^verbatim>\<open>lo <= ch && ch <= hi\<close> for ASCII bounds. Whether \<^verbatim>\<open>char\<close> is signed or not, a byte
  above 0x7F lies outside every such range.
\<close>

definition in_range :: "char \<Rightarrow> char \<Rightarrow> char \<Rightarrow> bool" where
  "in_range lo hi ch = ((of_char lo :: nat) \<le> of_char ch \<and> (of_char ch :: nat) \<le> of_char hi)"

text \<open>\<^verbatim>\<open>CASE_SPACE\<close>: space, tab, vertical tab, carriage return.\<close>

definition CASE_SPACE :: "char \<Rightarrow> bool" where
  "CASE_SPACE ch = (ch = CHR 0x20 \<or> ch = CHR 0x09 \<or> ch = CHR 0x0B \<or> ch = CHR 0x0D)"

text \<open>
  The C string that starts at the beginning of a buffer: the bytes before the first NUL.
  Where the allocation holds no NUL the C code reads on past its end; the model stops
  there. No theorem below rests on such a read.
\<close>

definition c_str :: "string \<Rightarrow> string" where
  "c_str buf = takeWhile (\<lambda>c. c \<noteq> NUL) buf"

text \<open>\<^verbatim>\<open>buf[i]\<close>. The lexer reads inside the allocation only.\<close>

definition buf_at :: "string \<Rightarrow> nat \<Rightarrow> char" where
  "buf_at buf i = (if i < length buf then buf ! i else NUL)"

definition TOKEN_STOP :: "GCodeLexer \<Rightarrow> GCodeLexer" where
  "TOKEN_STOP l =
    (case location l of
       None \<Rightarrow> l
     | Some loc \<Rightarrow> l\<lparr>location := Some (loc\<lparr>last_line := line l, last_column := column l + 1\<rparr>)\<rparr>)"

definition TOKEN_START :: "GCodeLexer \<Rightarrow> GCodeLexer" where
  "TOKEN_START l =
    TOKEN_STOP
      (case location l of
         None \<Rightarrow> l
       | Some loc \<Rightarrow> l\<lparr>location := Some (loc\<lparr>first_line := line l, first_column := column l\<rparr>)\<rparr>)"

text \<open>
  The loop \<^verbatim>\<open>while (lexer->error_limit < limit) lexer->error_limit *= 2\<close> of
  \<^verbatim>\<open>error_printf\<close>. It is entered with a limit that is not zero.
\<close>

function double_until :: "nat \<Rightarrow> nat \<Rightarrow> nat" where
  "double_until lim limit = (if lim < limit \<and> 0 < lim then double_until (lim * 2) limit else lim)"
  by pat_completeness auto
termination
  by (relation "measure (\<lambda>(lim, limit). limit - lim)") auto

declare double_until.simps [simp del]

text \<open>
  \<^verbatim>\<open>error_printf\<close>, with the formatted text in place of the format and its arguments.
  \<^verbatim>\<open>vsnprintf\<close> stores at most \<^verbatim>\<open>error_limit - 1\<close> bytes of it and returns its full length.
\<close>

definition error_printf :: "GCodeLexer \<Rightarrow> nat \<Rightarrow> string \<Rightarrow> GCodeLexer \<times> int" where
  "error_printf l limit msg =
    (let l1 = (if error_limit l < limit
               then l\<lparr>error_limit :=
                      double_until (if error_limit l = 0 then 256 else error_limit l) limit\<rparr>
               else l)
     in (l1\<lparr>error_str := take (error_limit l1 - 1) msg\<rparr>, int (length msg)))"

definition emit_error :: "GCodeLexer \<Rightarrow> string \<Rightarrow> GCodeLexer" where
  "emit_error l msg =
    (case error_printf l 256 msg of
       (l1, rv) \<Rightarrow>
         if rv < 0 then l1
         else if rv > int (error_limit l1) then fst (error_printf l1 (nat rv) msg)
         else l1)"

text \<open>The macro \<^verbatim>\<open>ERROR\<close>.\<close>

definition ERROR :: "GCodeLexer \<Rightarrow> string \<Rightarrow> GCodeLexer" where
  "ERROR l msg = (emit_error l msg)\<lparr>state := SCAN_ERROR\<rparr>"

definition token_alloc :: "env \<Rightarrow> GCodeLexer \<Rightarrow> GCodeLexer" where
  "token_alloc e l =
    (if token_str l = [] then l\<lparr>token_str := map (heap_byte e) [0 ..< 128]\<rparr>
     else l\<lparr>token_str :=
            token_str l @ map (heap_byte e) [token_limit l ..< token_limit l * 2]\<rparr>)"

definition token_char :: "env \<Rightarrow> GCodeLexer \<Rightarrow> char \<Rightarrow> GCodeLexer" where
  "token_char e l ch =
    (let l1 = (if token_length l = token_limit l then token_alloc e l else l)
     in l1\<lparr>token_str := (token_str l1)[token_length l1 := ch],
           token_length := token_length l1 + 1\<rparr>)"

definition add_str_wchar :: "env \<Rightarrow> GCodeLexer \<Rightarrow> GCodeLexer" where
  "add_str_wchar e l =
    (case wctomb e (int_value l) of
       None \<Rightarrow> token_char e l (CHR ''?'')
     | Some buf \<Rightarrow> foldl (token_char e) l buf)"

definition terminate_token :: "env \<Rightarrow> GCodeLexer \<Rightarrow> GCodeLexer" where
  "terminate_token e l = token_char e l NUL"

text \<open>The result is a C \<^verbatim>\<open>char\<close>, -1 for a byte that is no digit.\<close>

definition hex_digit_to_int :: "char \<Rightarrow> int" where
  "hex_digit_to_int ch =
    (if in_range (CHR ''0'') (CHR ''9'') ch then of_char ch - of_char (CHR ''0'')
     else if in_range (CHR ''a'') (CHR ''f'') ch then 10 + of_char ch - of_char (CHR ''a'')
     else if in_range (CHR ''A'') (CHR ''Z'') ch then 10 + of_char ch - of_char (CHR ''A'')
     else - 1)"

definition add_safe_digit :: "GCodeLexer \<Rightarrow> int \<Rightarrow> int \<Rightarrow> GCodeLexer" where
  "add_safe_digit l v base =
    l\<lparr>int_value := int_value l * word_of_int base + word_of_int v,
      digit_count := digit_count l + 1\<rparr>"

definition is_ident_char :: "char \<Rightarrow> bool" where
  "is_ident_char ch =
    (in_range (CHR ''a'') (CHR ''z'') ch
     \<or> in_range (CHR ''A'') (CHR ''Z'') ch
     \<or> in_range (CHR ''0'') (CHR ''9'') ch
     \<or> ch = CHR ''_''
     \<or> ch = CHR ''$'')"

definition is_symbol_char :: "char \<Rightarrow> bool" where
  "is_symbol_char ch =
    (ch = BACKQUOTE \<or> ch = CHR ''~'' \<or> ch = CHR ''!'' \<or> ch = CHR ''@'' \<or> ch = CHR ''#''
     \<or> ch = CHR ''%'' \<or> ch = CHR ''^'' \<or> ch = CHR ''&'' \<or> ch = CHR ''*'' \<or> ch = CHR ''(''
     \<or> ch = CHR '')'' \<or> ch = CHR ''-'' \<or> ch = CHR ''+'' \<or> ch = CHR ''='' \<or> ch = ENTER_EXPR
     \<or> ch = CHR ''['' \<or> ch = EXIT_EXPR \<or> ch = CHR '']'' \<or> ch = CHR ''|'' \<or> ch = BACKSLASH
     \<or> ch = CHR '':'' \<or> ch = CHR '','' \<or> ch = CHR ''<'' \<or> ch = CHR ''.'' \<or> ch = CHR ''>''
     \<or> ch = CHR ''?'' \<or> ch = CHR ''/'')"

definition continue_symbol :: "char \<Rightarrow> char \<Rightarrow> bool" where
  "continue_symbol c1 c2 =
    (if c1 = CHR ''*'' then c2 = CHR ''*''
     else if c1 = CHR ''<'' \<or> c1 = CHR ''>'' \<or> c1 = CHR ''='' then c2 = CHR ''=''
     else False)"

definition free_token :: "GCodeLexer \<Rightarrow> GCodeLexer" where
  "free_token l = l\<lparr>token_length := 0\<rparr>"

text \<open>A callback is called: the call is appended to the context, the result is the environment's.\<close>

definition invoke :: "env \<Rightarrow> GCodeLexer \<Rightarrow> call \<Rightarrow> GCodeLexer \<times> bool" where
  "invoke e l c = (l\<lparr>ctx := ctx l @ [c]\<rparr>, returns e (ctx l) c)"


section \<open>The lexer: emission\<close>

text \<open>
  The emit functions return the lexer and their boolean result. \<^verbatim>\<open>emit_symbol\<close> and
  \<^verbatim>\<open>emit_keyword_or_identifier\<close> pass \<^verbatim>\<open>token_str\<close> without terminating it: the callee
  reads up to the first NUL that the buffer happens to hold.
\<close>

definition emit_symbol :: "env \<Rightarrow> GCodeLexer \<Rightarrow> GCodeLexer \<times> bool" where
  "emit_symbol e l =
    (case invoke e (TOKEN_STOP l) (lex_keyword (c_str (token_str l))) of
       (l1, ok) \<Rightarrow>
         if \<not> ok then (free_token (l1\<lparr>state := SCAN_ERROR\<rparr>), False)
         else (free_token l1, True))"

definition emit_char_symbol :: "env \<Rightarrow> GCodeLexer \<Rightarrow> char \<Rightarrow> GCodeLexer \<times> bool" where
  "emit_char_symbol e l ch =
    (let l1 = terminate_token e (token_char e (TOKEN_STOP (TOKEN_START l)) ch) in
     case invoke e l1 (lex_keyword (c_str (token_str l1))) of
       (l2, ok) \<Rightarrow>
         if \<not> ok then (free_token (l2\<lparr>state := SCAN_ERROR\<rparr>), False)
         else (free_token l2, True))"

definition emit_bridge :: "env \<Rightarrow> GCodeLexer \<Rightarrow> GCodeLexer \<times> bool" where
  "emit_bridge e l =
    (case invoke e (TOKEN_STOP (TOKEN_START l)) lex_bridge of
       (l1, ok) \<Rightarrow> if \<not> ok then (l1\<lparr>state := SCAN_ERROR\<rparr>, False) else (l1, True))"

text \<open>
  \<^verbatim>\<open>emit_end_of_statement\<close> drops what \<^verbatim>\<open>lex_end_statement\<close> returns and always returns
  true; no caller reads its result, which the model leaves out.
\<close>

definition emit_end_of_statement :: "env \<Rightarrow> GCodeLexer \<Rightarrow> GCodeLexer" where
  "emit_end_of_statement e l =
    (fst (invoke e (TOKEN_STOP (TOKEN_START l)) lex_end_statement))\<lparr>state := SCAN_NEWLINE\<rparr>"

definition emit_str :: "env \<Rightarrow> GCodeLexer \<Rightarrow> GCodeLexer \<times> bool" where
  "emit_str e l =
    (let l1 = terminate_token e (TOKEN_STOP l) in
     case invoke e l1 (lex_str_literal (c_str (token_str l1))) of
       (l2, ok) \<Rightarrow>
         if \<not> ok then (free_token (l2\<lparr>state := SCAN_ERROR\<rparr>), False)
         else (free_token l2, True))"

definition emit_possible_str :: "env \<Rightarrow> GCodeLexer \<Rightarrow> GCodeLexer \<times> bool" where
  "emit_possible_str e l = (if token_length l \<noteq> 0 then emit_str e l else (l, True))"

definition emit_ident :: "env \<Rightarrow> GCodeLexer \<Rightarrow> GCodeLexer \<times> bool" where
  "emit_ident e l =
    (let l1 = terminate_token e (TOKEN_STOP l) in
     case invoke e l1 (lex_identifier (c_str (token_str l1))) of
       (l2, ok) \<Rightarrow>
         if \<not> ok then (free_token (l2\<lparr>state := SCAN_ERROR\<rparr>), False)
         else (free_token l2, True))"

text \<open>
  \<^verbatim>\<open>enter_args\<close>. The two \<^verbatim>\<open>strcmp\<close> calls read \<^verbatim>\<open>token_str\<close> as a C string before
  \<^verbatim>\<open>emit_ident\<close> terminates it. The loop over \<^verbatim>\<open>name[1 .. length - 1]\<close> looks for a byte
  that is not a decimal digit.
\<close>

definition enter_args :: "env \<Rightarrow> GCodeLexer \<Rightarrow> GCodeLexer \<times> bool" where
  "enter_args e l0 =
    (let l = l0\<lparr>state := SCAN_ARGS\<rparr>;
         name = token_str l;
         len = token_length l
     in if c_str (token_str l) = ''M117'' \<or> c_str (token_str l) = ''ECHO''
        then emit_ident e (l\<lparr>arg_mode := ARG_RAW\<rparr>)
        else if len > 1 \<and> in_range (CHR ''A'') (CHR ''Z'') (buf_at name 0)
        then (if \<exists>i \<in> set [1 ..< len]. \<not> in_range (CHR ''0'') (CHR ''9'') (buf_at name i)
              then emit_ident e (l\<lparr>arg_mode := ARG_EXTENDED\<rparr>)
              else emit_ident e (l\<lparr>arg_mode := ARG_TRADITIONAL\<rparr>))
        else emit_ident e (l\<lparr>arg_mode := ARG_EXTENDED\<rparr>))"

text \<open>
  \<^verbatim>\<open>emit_int (lexer, int value)\<close>: the parameter is an \<^verbatim>\<open>int\<close>, 32 bits wide, so the
  64-bit accumulator that \<^verbatim>\<open>EMIT_INT\<close> passes is converted to it; \<^verbatim>\<open>lex_int_literal\<close>
  takes an \<^verbatim>\<open>int64_t\<close>, to which the \<^verbatim>\<open>int\<close> is sign-extended.
\<close>

definition emit_int :: "env \<Rightarrow> GCodeLexer \<Rightarrow> 32 word \<Rightarrow> GCodeLexer \<times> bool" where
  "emit_int e l v =
    (case invoke e (TOKEN_STOP l) (lex_int_literal (scast v)) of
       (l1, ok) \<Rightarrow> if \<not> ok then (l1\<lparr>state := SCAN_ERROR\<rparr>, False) else (l1, True))"

definition EMIT_INT :: "env \<Rightarrow> GCodeLexer \<Rightarrow> GCodeLexer \<times> bool" where
  "EMIT_INT e l = emit_int e l (ucast (int_value l))"

definition emit_float :: "env \<Rightarrow> GCodeLexer \<Rightarrow> GCodeLexer \<times> bool" where
  "emit_float e l =
    (let l1 = terminate_token e (TOKEN_STOP l);
         txt = c_str (token_str l1);
         l2 = free_token l1
     in if strtod_consumed e txt < length txt
        then (ERROR l2 (''Invalid float '' @ c_str (token_str l2)), False)
        else case invoke e l2 (lex_float_literal txt) of
               (l3, ok) \<Rightarrow> if \<not> ok then (l3\<lparr>state := SCAN_ERROR\<rparr>, False) else (l3, True))"

definition emit_keyword_or_identifier :: "env \<Rightarrow> GCodeLexer \<Rightarrow> GCodeLexer \<times> bool" where
  "emit_keyword_or_identifier e l =
    (case invoke e (TOKEN_STOP l) (lex_identifier (c_str (token_str l))) of
       (l1, result) \<Rightarrow> (free_token l1, result))"

text \<open>
  \<^verbatim>\<open>lexer->int_value > (max - value) / base\<close>, computed in \<^verbatim>\<open>int64_t\<close>. At every call
  \<open>max - value\<close> is not negative and the base is positive, where C's division and
  \<open>div\<close> agree.
\<close>

definition digit_exceeds :: "GCodeLexer \<Rightarrow> int \<Rightarrow> int \<Rightarrow> int \<Rightarrow> bool" where
  "digit_exceeds l v base mx = (sint (int_value l) > (mx - v) div base)"

definition add_digit :: "GCodeLexer \<Rightarrow> int \<Rightarrow> int \<Rightarrow> int \<Rightarrow> string \<Rightarrow> GCodeLexer \<times> bool" where
  "add_digit l v base mx err =
    (if digit_exceeds l v base mx then (free_token (ERROR l err), False)
     else (add_safe_digit l v base, True))"

definition enter_expr :: "env \<Rightarrow> GCodeLexer \<Rightarrow> GCodeLexer \<times> bool" where
  "enter_expr e l =
    (case emit_char_symbol e l ENTER_EXPR of
       (l1, ok) \<Rightarrow>
         if ok then (l1\<lparr>state := SCAN_EXPR, expr_nesting := 1\<rparr>, True) else (l1, False))"

definition end_arg_segment_tail :: "env \<Rightarrow> GCodeLexer \<Rightarrow> char \<Rightarrow> GCodeLexer" where
  "end_arg_segment_tail e l ch =
    (if ch = CHR '';'' then l\<lparr>state := SCAN_COMMENT\<rparr>
     else if ch = NL then (emit_end_of_statement e l)\<lparr>state := SCAN_NEWLINE\<rparr>
     else l\<lparr>state := SCAN_ARGS\<rparr>)"

text \<open>
  \<^verbatim>\<open>end_arg_segment\<close>: the first \<^verbatim>\<open>switch\<close> on the argument mode, then, unless it returned,
  the second one on the byte (\<open>end_arg_segment_tail\<close>).
\<close>

definition end_arg_segment :: "env \<Rightarrow> GCodeLexer \<Rightarrow> char \<Rightarrow> GCodeLexer" where
  "end_arg_segment e l ch =
    (case arg_mode l of
       ARG_TRADITIONAL \<Rightarrow>
         if \<not> in_arg_value l
         then end_arg_segment_tail e (fst (emit_str e (TOKEN_STOP (TOKEN_START l)))) ch
         else end_arg_segment_tail e l ch
     | ARG_EXTENDED \<Rightarrow>
         if \<not> in_arg_value l
         then (let l1 = ERROR (TOKEN_STOP (TOKEN_START l))
                          (''Expected '' @ [SQUOTE] @ ''='' @ [SQUOTE] @ '' after parameter name'')
               in if ch = NL then emit_end_of_statement e l1 else l1)
         else end_arg_segment_tail e l ch
     | ARG_RAW \<Rightarrow>
         if ch \<noteq> CHR 0x0D \<and> ch \<noteq> NL
         then (case emit_bridge e l of
                 (l1, ok) \<Rightarrow>
                   if ok then (token_char e l1 ch)\<lparr>state := SCAN_ARG_VALUE\<rparr> else l1)
         else end_arg_segment_tail e l ch)"

definition to_upper :: "char \<Rightarrow> char" where
  "to_upper ch =
    (if in_range (CHR ''a'') (CHR ''z'') ch then char_of ((of_char ch :: nat) - 32) else ch)"

definition to_lower :: "char \<Rightarrow> char" where
  "to_lower ch =
    (if in_range (CHR ''A'') (CHR ''Z'') ch then char_of ((of_char ch :: nat) + 32) else ch)"

definition TOKEN_CHAR_UPPER :: "env \<Rightarrow> GCodeLexer \<Rightarrow> char \<Rightarrow> GCodeLexer" where
  "TOKEN_CHAR_UPPER e l ch = token_char e l (to_upper ch)"

definition TOKEN_CHAR_LOWER :: "env \<Rightarrow> GCodeLexer \<Rightarrow> char \<Rightarrow> GCodeLexer" where
  "TOKEN_CHAR_LOWER e l ch = token_char e l (to_lower ch)"

definition UNICODE_MAX :: int where "UNICODE_MAX = 0x10ffff"
definition INT64_MAX :: int where "INT64_MAX = 0x7fffffffffffffff"


section \<open>The lexer: the states of \<^verbatim>\<open>gcode_lexer_scan\<close>\<close>

text \<open>
  One function for each \<^verbatim>\<open>case\<close> of the \<^verbatim>\<open>switch\<close> on \<^verbatim>\<open>lexer->state\<close>. Each returns
  the lexer and whether the case executed \<^verbatim>\<open>BACK_UP\<close>, after which the loop reads the
  same byte again.
\<close>

definition scan_newline :: "GCodeLexer \<Rightarrow> char \<Rightarrow> GCodeLexer \<times> bool" where
  "scan_newline l0 ch =
    (let l = l0\<lparr>expr_nesting := 0\<rparr> in
     if ch = CHR ''N'' \<or> ch = CHR ''n'' then (l\<lparr>state := SCAN_LINENO\<rparr>, False)
     else if ch = CHR '';'' then (l\<lparr>state := SCAN_EMPTY_LINE_COMMENT\<rparr>, False)
     else if ch = NL \<or> CASE_SPACE ch then (l, False)
     else (l\<lparr>state := SCAN_COMMAND_NAME\<rparr>, True))"

definition scan_error :: "GCodeLexer \<Rightarrow> char \<Rightarrow> GCodeLexer \<times> bool" where
  "scan_error l ch = (if ch = NL then (l\<lparr>state := SCAN_NEWLINE\<rparr>, False) else (l, False))"

definition scan_lineno :: "GCodeLexer \<Rightarrow> char \<Rightarrow> GCodeLexer \<times> bool" where
  "scan_lineno l ch =
    (if ch = NL then (l\<lparr>state := SCAN_NEWLINE\<rparr>, False)
     else if CASE_SPACE ch then (l\<lparr>state := SCAN_AFTER_LINENO\<rparr>, False)
     else if ch = CHR '';'' then (l\<lparr>state := SCAN_EMPTY_LINE_COMMENT\<rparr>, False)
     else if ch = DQUOTE then (ERROR l ''String not allowed in line number'', False)
     else if ch = ENTER_EXPR then (ERROR l ''Expression not allowed in line number'', False)
     else (l, False))"

definition scan_after_lineno :: "GCodeLexer \<Rightarrow> char \<Rightarrow> GCodeLexer \<times> bool" where
  "scan_after_lineno l ch =
    (if ch = NL then (l\<lparr>state := SCAN_NEWLINE\<rparr>, False)
     else if CASE_SPACE ch then (l, False)
     else if ch = CHR '';'' then (l\<lparr>state := SCAN_EMPTY_LINE_COMMENT\<rparr>, False)
     else (l\<lparr>state := SCAN_COMMAND_NAME\<rparr>, True))"

definition scan_command_name :: "env \<Rightarrow> GCodeLexer \<Rightarrow> char \<Rightarrow> GCodeLexer \<times> bool" where
  "scan_command_name e l ch =
    (if ch = ENTER_EXPR
     then (ERROR (free_token (TOKEN_START l)) ''Expressions not allowed in command name'', False)
     else if ch = DQUOTE
     then (ERROR (free_token (TOKEN_START l)) ''Strings not allowed in command name'', False)
     else if ch = NL then (emit_end_of_statement e (fst (emit_ident e l)), False)
     else if CASE_SPACE ch then (fst (enter_args e l), False)
     else if ch = CHR '';''
     then (case emit_ident e l of
             (l1, ok) \<Rightarrow> if ok then (l1\<lparr>state := SCAN_COMMENT\<rparr>, False) else (l1, False))
     else (TOKEN_CHAR_UPPER e l ch, False))"

definition scan_args :: "env \<Rightarrow> GCodeLexer \<Rightarrow> char \<Rightarrow> GCodeLexer \<times> bool" where
  "scan_args e l ch =
    (if ch = ENTER_EXPR
     then (case emit_char_symbol e (l\<lparr>in_arg_value := False\<rparr>) ch of
             (l1, ok) \<Rightarrow> if ok then (l1\<lparr>state := SCAN_EXPR\<rparr>, False) else (l1, False))
     else if ch = DQUOTE
     then (case arg_mode l of
             ARG_TRADITIONAL \<Rightarrow>
               (l\<lparr>after_str := SCAN_AFTER_TRADITIONAL_KEY, state := SCAN_STR\<rparr>, False)
           | ARG_EXTENDED \<Rightarrow>
               (l\<lparr>in_arg_value := False, after_str := SCAN_AFTER_EXPR, state := SCAN_STR\<rparr>,
                False)
           | ARG_RAW \<Rightarrow> (token_char e l ch, False))
     else if ch = NL then (emit_end_of_statement e l, False)
     else if ch = CHR '';'' then (l\<lparr>state := SCAN_COMMENT\<rparr>, False)
     else if ch = CHR ''=''
     then (ERROR l (''Expected parameter name before '' @ [SQUOTE] @ ''='' @ [SQUOTE]), False)
     else if CASE_SPACE ch then (l, False)
     else (let l1 = TOKEN_START l in
           case arg_mode l1 of
             ARG_TRADITIONAL \<Rightarrow>
               (case emit_str e (TOKEN_CHAR_UPPER e l1 ch) of
                  (l2, ok) \<Rightarrow>
                    if ok
                    then (l2\<lparr>in_arg_value := False, state := SCAN_AFTER_TRADITIONAL_KEY\<rparr>,
                          False)
                    else (l2, False))
           | ARG_EXTENDED \<Rightarrow>
               ((TOKEN_CHAR_UPPER e l1 ch)\<lparr>in_arg_value := False, state := SCAN_EXTENDED_KEY\<rparr>,
                False)
           | ARG_RAW \<Rightarrow> ((token_char e l1 ch)\<lparr>state := SCAN_ARG_VALUE\<rparr>, False)))"

definition scan_extended_key :: "env \<Rightarrow> GCodeLexer \<Rightarrow> char \<Rightarrow> GCodeLexer \<times> bool" where
  "scan_extended_key e l ch =
    (if ch = NL \<or> ch = CHR '';'' then (end_arg_segment e (free_token l) ch, False)
     else if CASE_SPACE ch
     then (case emit_possible_str e l of
             (l1, ok) \<Rightarrow>
               if ok then (l1\<lparr>state := SCAN_AFTER_EXTENDED_KEY\<rparr>, False) else (l1, False))
     else if ch = CHR ''=''
     then (case emit_possible_str e l of
             (l1, ok) \<Rightarrow>
               if ok then (l1\<lparr>state := SCAN_AFTER_EXTENDED_SEPARATOR\<rparr>, False)
               else (l1, False))
     else if ch = ENTER_EXPR
     then (case emit_possible_str e l of
             (l1, ok) \<Rightarrow>
               if ok
               then (case emit_bridge e l1 of
                       (l2, ok2) \<Rightarrow> if ok2 then (fst (enter_expr e l2), False) else (l2, False))
               else (l1, False))
     else if ch = DQUOTE
     then (case emit_possible_str e l of
             (l1, ok) \<Rightarrow>
               if ok
               then (case emit_bridge e l1 of
                       (l2, ok2) \<Rightarrow>
                         if ok2
                         then (l2\<lparr>after_str := SCAN_AFTER_EXPR, state := SCAN_STR\<rparr>, False)
                         else (l2, False))
               else (l1, False))
     else (TOKEN_CHAR_UPPER e l ch, False))"

definition scan_after_extended_key :: "env \<Rightarrow> GCodeLexer \<Rightarrow> char \<Rightarrow> GCodeLexer \<times> bool" where
  "scan_after_extended_key e l ch =
    (if ch = CHR ''='' then (l\<lparr>state := SCAN_AFTER_EXTENDED_SEPARATOR\<rparr>, False)
     else if CASE_SPACE ch then (l, False)
     else if ch = CHR '';'' \<or> ch = NL then (end_arg_segment e l ch, False)
     else (end_arg_segment e (l\<lparr>in_arg_value := True\<rparr>) ch, False))"

definition scan_after_extended_separator ::
  "env \<Rightarrow> GCodeLexer \<Rightarrow> char \<Rightarrow> GCodeLexer \<times> bool" where
  "scan_after_extended_separator e l ch =
    (if ch = NL \<or> ch = CHR '';'' then (end_arg_segment e l ch, False)
     else if CASE_SPACE ch then (l, False)
     else if ch = DQUOTE
     then (l\<lparr>in_arg_value := True, after_str := SCAN_AFTER_EXPR, state := SCAN_STR\<rparr>, False)
     else if ch = ENTER_EXPR then (fst (enter_expr e (l\<lparr>in_arg_value := True\<rparr>)), False)
     else (l\<lparr>in_arg_value := True, state := SCAN_ARG_VALUE\<rparr>, True))"

definition scan_after_traditional_key ::
  "env \<Rightarrow> GCodeLexer \<Rightarrow> char \<Rightarrow> GCodeLexer \<times> bool" where
  "scan_after_traditional_key e l ch =
    (if ch = CHR ''='' then (l, False)
     else if ch = NL \<or> ch = CHR '';'' \<or> CASE_SPACE ch then (end_arg_segment e l ch, False)
     else if ch = DQUOTE then (l\<lparr>after_str := SCAN_ARG_VALUE, state := SCAN_STR\<rparr>, False)
     else if ch = ENTER_EXPR then (fst (enter_expr e (l\<lparr>in_arg_value := True\<rparr>)), False)
     else (l\<lparr>state := SCAN_ARG_VALUE, in_arg_value := True\<rparr>, True))"

definition scan_arg_value :: "env \<Rightarrow> GCodeLexer \<Rightarrow> char \<Rightarrow> GCodeLexer \<times> bool" where
  "scan_arg_value e l ch =
    (if ch = NL then (emit_end_of_statement e (fst (emit_possible_str e l)), False)
     else if ch = CHR '';''
     then (if arg_mode l = ARG_RAW then (token_char e l ch, False)
           else case emit_possible_str e l of
                  (l1, ok) \<Rightarrow> if ok then (l1\<lparr>state := SCAN_COMMENT\<rparr>, False) else (l1, False))
     else if CASE_SPACE ch
     then (if arg_mode l = ARG_RAW then (token_char e l ch, False)
           else case emit_possible_str e l of
                  (l1, ok) \<Rightarrow> if ok then (l1\<lparr>state := SCAN_ARGS\<rparr>, False) else (l1, False))
     else if ch = DQUOTE
     then (case emit_possible_str e l of
             (l1, ok) \<Rightarrow>
               if ok
               then (case emit_bridge e l1 of
                       (l2, ok2) \<Rightarrow>
                         if ok2
                         then (l2\<lparr>after_str := SCAN_AFTER_EXPR, state := SCAN_STR\<rparr>, False)
                         else (l2, False))
               else (l1, False))
     else if ch = ENTER_EXPR
     then (case emit_possible_str e l of
             (l1, ok) \<Rightarrow>
               if ok
               then (case emit_bridge e l1 of
                       (l2, ok2) \<Rightarrow> if ok2 then (fst (enter_expr e l2), False) else (l2, False))
               else (l1, False))
     else (token_char e l ch, False))"

definition scan_comment :: "env \<Rightarrow> GCodeLexer \<Rightarrow> char \<Rightarrow> GCodeLexer \<times> bool" where
  "scan_comment e l ch = (if ch = NL then (emit_end_of_statement e l, False) else (l, False))"

definition scan_empty_line_comment :: "GCodeLexer \<Rightarrow> char \<Rightarrow> GCodeLexer \<times> bool" where
  "scan_empty_line_comment l ch =
    (if ch = NL then (l\<lparr>state := SCAN_NEWLINE\<rparr>, False) else (l, False))"

definition scan_expr :: "env \<Rightarrow> GCodeLexer \<Rightarrow> char \<Rightarrow> GCodeLexer \<times> bool" where
  "scan_expr e l ch =
    (if ch = NL
     then ((ERROR (TOKEN_STOP (TOKEN_START l)) ''Unterminated expression'')
             \<lparr>state := SCAN_NEWLINE\<rparr>, False)
     else if CASE_SPACE ch then (l, False)
     else if ch = CHR ''(''
     then (fst (emit_char_symbol e (l\<lparr>expr_nesting := expr_nesting l + 1\<rparr>) ch), False)
     else if ch = CHR '')''
     then (fst (emit_char_symbol e
                  (if expr_nesting l \<noteq> 0 then l\<lparr>expr_nesting := expr_nesting l - 1\<rparr> else l)
                  ch), False)
     else if ch = EXIT_EXPR
     then (case emit_char_symbol e (l\<lparr>expr_nesting := 0\<rparr>) ch of
             (l1, ok) \<Rightarrow> if ok then (l1\<lparr>state := SCAN_AFTER_EXPR\<rparr>, False) else (l1, False))
     else if ch = CHR ''0''
     then ((token_char e (TOKEN_START l) ch)\<lparr>state := SCAN_NUMBER_BASE\<rparr>, False)
     else if ch = SQUOTE \<or> ch = BACKQUOTE
     then (ERROR (TOKEN_START l) (''Unexpected character '' @ [ch]), False)
     else if ch = CHR ''.''
     then ((token_char e (TOKEN_START l) ch)\<lparr>state := SCAN_DOT\<rparr>, False)
     else if ch = DQUOTE
     then ((TOKEN_START l)\<lparr>after_str := SCAN_EXPR, state := SCAN_STR\<rparr>, False)
     else (let l1 = TOKEN_START l in
           if in_range (CHR ''1'') (CHR ''9'') ch
           then ((token_char e l1 ch)
                   \<lparr>int_value := word_of_int (of_char ch - of_char (CHR ''0'')),
                    digit_count := 1, state := SCAN_DECIMAL\<rparr>, False)
           else if is_symbol_char ch
           then (token_char e (l1\<lparr>state := SCAN_SYMBOL\<rparr>) ch, False)
           else (TOKEN_CHAR_LOWER e (l1\<lparr>state := SCAN_IDENTIFIER\<rparr>) ch, False)))"

text \<open>
  \<^verbatim>\<open>SCAN_AFTER_EXPR\<close>, the branch for the modes other than raw and the bytes other than
  newline, semicolon and white space.
\<close>

definition scan_after_expr_default :: "env \<Rightarrow> GCodeLexer \<Rightarrow> char \<Rightarrow> GCodeLexer" where
  "scan_after_expr_default e l ch =
    (if arg_mode l = ARG_TRADITIONAL
     then (if in_arg_value l
           then (if ch \<noteq> DQUOTE \<and> ch \<noteq> ENTER_EXPR then fst (emit_bridge e l) else l)
                  \<lparr>state := SCAN_ARG_VALUE\<rparr>
           else l\<lparr>state := SCAN_AFTER_TRADITIONAL_KEY\<rparr>)
     else (let l1 = (if ch \<noteq> DQUOTE \<and> ch \<noteq> ENTER_EXPR then fst (emit_bridge e l) else l) in
           if in_arg_value l1 then l1\<lparr>state := SCAN_ARG_VALUE\<rparr>
           else l1\<lparr>state := SCAN_EXTENDED_KEY\<rparr>))"

definition scan_after_expr :: "env \<Rightarrow> GCodeLexer \<Rightarrow> char \<Rightarrow> GCodeLexer \<times> bool" where
  "scan_after_expr e l ch =
    (if arg_mode l = ARG_RAW then (end_arg_segment e l ch, False)
     else if ch = NL \<or> ch = CHR '';'' then (end_arg_segment e l ch, False)
     else if CASE_SPACE ch
     then (if arg_mode l = ARG_EXTENDED \<and> \<not> in_arg_value l
           then (l\<lparr>state := SCAN_AFTER_EXTENDED_KEY\<rparr>, False)
           else (end_arg_segment e l ch, False))
     else (scan_after_expr_default e l ch, True))"

definition scan_symbol :: "env \<Rightarrow> GCodeLexer \<Rightarrow> char \<Rightarrow> GCodeLexer \<times> bool" where
  "scan_symbol e l ch =
    (if token_length l = 0
        \<or> (token_length l = 1 \<and> continue_symbol (buf_at (token_str l) 0) ch)
     then (token_char e l ch, False)
     else case emit_symbol e l of
            (l1, ok) \<Rightarrow> if \<not> ok then (l1, False) else (l1\<lparr>state := SCAN_EXPR\<rparr>, True))"

definition scan_identifier :: "env \<Rightarrow> GCodeLexer \<Rightarrow> char \<Rightarrow> GCodeLexer \<times> bool" where
  "scan_identifier e l ch =
    (if is_ident_char ch then (TOKEN_CHAR_LOWER e l ch, False)
     else case emit_keyword_or_identifier e l of
            (l1, ok) \<Rightarrow>
              if \<not> ok then (l1, False)
              else if ch = CHR ''.'' then ((token_char e l1 ch)\<lparr>state := SCAN_DOT\<rparr>, False)
              else (l1\<lparr>state := SCAN_EXPR\<rparr>, True))"


definition scan_str :: "env \<Rightarrow> GCodeLexer \<Rightarrow> char \<Rightarrow> GCodeLexer \<times> bool" where
  "scan_str e l ch =
    (if ch = BACKSLASH then (l\<lparr>state := SCAN_STR_ESCAPE\<rparr>, False)
     else if ch = DQUOTE
     then (case emit_str e l of
             (l1, ok) \<Rightarrow> if ok then (l1\<lparr>state := after_str l1\<rparr>, False) else (l1, False))
     else if ch = NL
     then ((free_token (ERROR l ''Unterminated string''))\<lparr>state := SCAN_NEWLINE\<rparr>, False)
     else (token_char e l ch, False))"

text \<open>\<^verbatim>\<open>CASE_STR_ESC (esc_ch, ch)\<close>: the byte appended for a one-letter escape.\<close>

definition str_esc :: "char \<Rightarrow> char option" where
  "str_esc ch =
    (if ch = CHR ''a'' then Some (CHR 0x07)
     else if ch = CHR ''b'' then Some (CHR 0x08)
     else if ch = CHR ''e'' then Some (CHR 0x1B)
     else if ch = CHR ''f'' then Some (CHR 0x0C)
     else if ch = CHR ''n'' then Some (CHR 0x0A)
     else if ch = CHR ''r'' then Some (CHR 0x0D)
     else if ch = CHR ''t'' then Some (CHR 0x09)
     else if ch = CHR ''v'' then Some (CHR 0x0B)
     else if ch = BACKSLASH then Some (CHR 0x5C)
     else if ch = SQUOTE then Some (CHR 0x27)
     else if ch = DQUOTE then Some (CHR 0x22)
     else if ch = CHR ''?'' then Some (CHR 0x3F)
     else None)"

definition scan_str_escape :: "env \<Rightarrow> GCodeLexer \<Rightarrow> char \<Rightarrow> GCodeLexer \<times> bool" where
  "scan_str_escape e l ch =
    (case str_esc ch of
       Some b \<Rightarrow> ((token_char e l b)\<lparr>state := SCAN_STR\<rparr>, False)
     | None \<Rightarrow>
         if ch = CHR ''x''
         then (l\<lparr>int_value := 0, digit_count := 0, state := SCAN_STR_HEX\<rparr>, False)
         else if ch = CHR ''u''
         then (l\<lparr>int_value := 0, digit_count := 0, state := SCAN_STR_LOW_UNICODE\<rparr>, False)
         else if ch = CHR ''U''
         then (l\<lparr>int_value := 0, digit_count := 0, state := SCAN_STR_HIGH_UNICODE\<rparr>, False)
         else if ch = NL
         then ((free_token (ERROR l ''Unterminated string''))\<lparr>state := SCAN_NEWLINE\<rparr>, False)
         else if in_range (CHR ''0'') (CHR ''9'') ch
         then (l\<lparr>int_value := 0, digit_count := 0, state := SCAN_STR_OCTAL\<rparr>, True)
         else (free_token (ERROR l (''Illegal string escape '' @ [BACKSLASH, ch])), False))"

text \<open>\<^verbatim>\<open>TOKEN_CHAR (lexer->int_value)\<close>: the accumulator converted to a \<^verbatim>\<open>char\<close>.\<close>

definition token_char_int_value :: "env \<Rightarrow> GCodeLexer \<Rightarrow> GCodeLexer" where
  "token_char_int_value e l = token_char e l (char_of (unat (int_value l)))"

definition scan_str_octal :: "env \<Rightarrow> GCodeLexer \<Rightarrow> char \<Rightarrow> GCodeLexer \<times> bool" where
  "scan_str_octal e l ch =
    (if in_range (CHR ''0'') (CHR ''7'') ch
     then (case add_digit l (of_char ch - of_char (CHR ''0'')) 8 255
                  (''Octal escape ('' @ [BACKSLASH] @ ''nnn) exceeds byte value'') of
             (l1, ok) \<Rightarrow>
               if ok \<and> digit_count l1 = 3
               then ((token_char_int_value e l1)\<lparr>state := SCAN_STR\<rparr>, False)
               else (l1, False))
     else if ch = CHR ''8'' \<or> ch = CHR ''9''
     then (free_token
             (ERROR l (''Illegal digit in octal escape ('' @ [BACKSLASH] @ ''nnn)'')), False)
     else ((token_char_int_value e l)\<lparr>state := SCAN_STR\<rparr>, True))"

definition scan_str_hex :: "env \<Rightarrow> GCodeLexer \<Rightarrow> char \<Rightarrow> GCodeLexer \<times> bool" where
  "scan_str_hex e l ch =
    (let digit_value = hex_digit_to_int ch in
     if digit_value = - 1
     then (if digit_count l = 0
           then (free_token
                   (ERROR l (''Hex string escape ('' @ [BACKSLASH]
                               @ ''x) requires at least one digit'')), False)
           else ((token_char_int_value e l)\<lparr>state := SCAN_STR\<rparr>, True))
     else case add_digit l digit_value 16 255 ''Hex escape exceeds byte value'' of
            (l1, ok) \<Rightarrow> if \<not> ok then (l1\<lparr>state := SCAN_ERROR\<rparr>, False) else (l1, False))"

definition scan_str_low_unicode :: "env \<Rightarrow> GCodeLexer \<Rightarrow> char \<Rightarrow> GCodeLexer \<times> bool" where
  "scan_str_low_unicode e l ch =
    (let digit_value = hex_digit_to_int ch in
     if digit_value = - 1
     then (free_token
             (ERROR l (''Low unicode escape ('' @ [BACKSLASH]
                         @ ''u) requires exactly four digits'')), False)
     else (let l1 = add_safe_digit l digit_value 16 in
           if digit_count l1 = 4 then ((add_str_wchar e l1)\<lparr>state := SCAN_STR\<rparr>, False)
           else (l1, False)))"

definition scan_str_high_unicode :: "env \<Rightarrow> GCodeLexer \<Rightarrow> char \<Rightarrow> GCodeLexer \<times> bool" where
  "scan_str_high_unicode e l ch =
    (let digit_value = hex_digit_to_int ch in
     if digit_value = - 1
     then (free_token
             (ERROR l (''High unicode escape ('' @ [BACKSLASH]
                         @ ''U) requires exactly eight digits'')), False)
     else case add_digit l digit_value 16 UNICODE_MAX
                 (''High unicode escape ('' @ [BACKSLASH] @ ''U) exceeds unicode value'') of
            (l1, ok) \<Rightarrow>
              if ok \<and> digit_count l1 = 8
              then ((add_str_wchar e l1)\<lparr>state := SCAN_STR\<rparr>, False)
              else (l1, False))"

definition scan_number_base :: "env \<Rightarrow> GCodeLexer \<Rightarrow> char \<Rightarrow> GCodeLexer \<times> bool" where
  "scan_number_base e l ch =
    (if ch = CHR ''b'' \<or> ch = CHR ''B''
     then ((free_token l)\<lparr>int_value := 0, digit_count := 0, state := SCAN_BINARY\<rparr>, False)
     else if ch = CHR ''x'' \<or> ch = CHR ''X''
     then ((token_char e l ch)\<lparr>int_value := 0, digit_count := 0, state := SCAN_HEX\<rparr>, False)
     else if ch = CHR ''.''
     then ((token_char e l ch)\<lparr>state := SCAN_DECIMAL_FRACTION\<rparr>, False)
     else if ch = CHR ''e'' \<or> ch = CHR ''E''
     then ((token_char e l ch)\<lparr>state := SCAN_DECIMAL_EXPONENT_SIGN\<rparr>, False)
     else if in_range (CHR ''0'') (CHR ''9'') ch
     then ((free_token l)\<lparr>int_value := 0, state := SCAN_OCTAL\<rparr>, True)
     else (case emit_int e (free_token l) 0 of
             (l1, ok) \<Rightarrow> if ok then (l1\<lparr>state := SCAN_EXPR\<rparr>, True) else (l1, True)))"

definition scan_decimal :: "env \<Rightarrow> GCodeLexer \<Rightarrow> char \<Rightarrow> GCodeLexer \<times> bool" where
  "scan_decimal e l ch =
    (if ch = CHR ''.''
     then ((token_char e l ch)\<lparr>state := SCAN_DECIMAL_FRACTION\<rparr>, False)
     else if ch = CHR ''e'' \<or> ch = CHR ''E''
     then ((token_char e l ch)\<lparr>state := SCAN_DECIMAL_EXPONENT_SIGN\<rparr>, False)
     else if in_range (CHR ''0'') (CHR ''9'') ch
     then (let l1 = token_char e l ch in
           if digit_exceeds l1 (of_char ch - of_char (CHR ''0'')) 10 INT64_MAX
           then (l1\<lparr>state := SCAN_DECIMAL_FLOAT\<rparr>, False)
           else (add_safe_digit l1 (of_char ch - of_char (CHR ''0'')) 10, False))
     else (case emit_int e (free_token l) (ucast (int_value l)) of
             (l1, ok) \<Rightarrow> if ok then (l1\<lparr>state := SCAN_EXPR\<rparr>, True) else (l1, True)))"

definition scan_hex :: "env \<Rightarrow> GCodeLexer \<Rightarrow> char \<Rightarrow> GCodeLexer \<times> bool" where
  "scan_hex e l ch =
    (if ch = CHR ''.''
     then ((token_char e l ch)\<lparr>state := SCAN_HEX_FRACTION\<rparr>, False)
     else if ch = CHR ''p'' \<or> ch = CHR ''P''
     then ((token_char e l ch)\<lparr>state := SCAN_HEX_EXPONENT_SIGN\<rparr>, False)
     else (let digit_value = hex_digit_to_int ch in
           if digit_value \<noteq> - 1
           then (let l1 = token_char e l ch in
                 if digit_exceeds l1 digit_value 16 INT64_MAX
                 then (l1\<lparr>state := SCAN_HEX_FLOAT\<rparr>, False)
                 else (add_safe_digit l1 digit_value 16, False))
           else (case EMIT_INT e (free_token l) of
                   (l1, ok) \<Rightarrow> if ok then (l1\<lparr>state := SCAN_EXPR\<rparr>, True) else (l1, True))))"

definition scan_binary :: "env \<Rightarrow> GCodeLexer \<Rightarrow> char \<Rightarrow> GCodeLexer \<times> bool" where
  "scan_binary e l ch =
    (if ch = CHR ''0'' \<or> ch = CHR ''1''
     then (fst (add_digit l (of_char ch - of_char (CHR ''0'')) 2 INT64_MAX
                  ''Binary literal exceeds maximum value''), False)
     else if ch = CHR ''.'' then (ERROR l ''Fractional binary literals not allowed'', False)
     else if in_range (CHR ''2'') (CHR ''9'') ch
     then (ERROR l (''Illegal binary digit '' @ [ch]), False)
     else (case EMIT_INT e l of
             (l1, ok) \<Rightarrow> if ok then (l1\<lparr>state := SCAN_EXPR\<rparr>, True) else (l1, True)))"

definition scan_octal :: "env \<Rightarrow> GCodeLexer \<Rightarrow> char \<Rightarrow> GCodeLexer \<times> bool" where
  "scan_octal e l ch =
    (if in_range (CHR ''0'') (CHR ''7'') ch
     then (fst (add_digit l (of_char ch - of_char (CHR ''0'')) 8 INT64_MAX
                  ''Octal literal exceeds maximum value''), False)
     else if ch = CHR ''.'' then (ERROR l ''Fractional octal literals not allowed'', False)
     else if ch = CHR ''8'' \<or> ch = CHR ''9''
     then (ERROR l (''Illegal octal digit '' @ [ch]), False)
     else (case EMIT_INT e l of
             (l1, ok) \<Rightarrow> if ok then (l1\<lparr>state := SCAN_EXPR\<rparr>, True) else (l1, True)))"

definition scan_dot :: "env \<Rightarrow> GCodeLexer \<Rightarrow> char \<Rightarrow> GCodeLexer \<times> bool" where
  "scan_dot e l ch =
    (if in_range (CHR ''0'') (CHR ''9'') ch
     then ((token_char e l ch)\<lparr>state := SCAN_DECIMAL_FRACTION\<rparr>, False)
     else case emit_symbol e l of
            (l1, ok) \<Rightarrow> if \<not> ok then (l1, False) else (l1\<lparr>state := SCAN_EXPR\<rparr>, True))"

text \<open>The end of a float: \<^verbatim>\<open>if (emit_float (lexer)) lexer->state = SCAN_EXPR; BACK_UP;\<close>\<close>

definition finish_float :: "env \<Rightarrow> GCodeLexer \<Rightarrow> GCodeLexer \<times> bool" where
  "finish_float e l =
    (case emit_float e l of
       (l1, ok) \<Rightarrow> if ok then (l1\<lparr>state := SCAN_EXPR\<rparr>, True) else (l1, True))"

definition scan_decimal_float :: "env \<Rightarrow> GCodeLexer \<Rightarrow> char \<Rightarrow> GCodeLexer \<times> bool" where
  "scan_decimal_float e l ch =
    (if ch = CHR ''.''
     then ((token_char e l ch)\<lparr>state := SCAN_DECIMAL_FRACTION\<rparr>, False)
     else if ch = CHR ''e'' \<or> ch = CHR ''E''
     then ((token_char e l ch)\<lparr>state := SCAN_DECIMAL_EXPONENT_SIGN\<rparr>, False)
     else if in_range (CHR ''0'') (CHR ''9'') ch then (token_char e l ch, False)
     else finish_float e l)"

definition scan_decimal_fraction :: "env \<Rightarrow> GCodeLexer \<Rightarrow> char \<Rightarrow> GCodeLexer \<times> bool" where
  "scan_decimal_fraction e l ch =
    (if ch = CHR ''e'' \<or> ch = CHR ''E''
     then ((token_char e l ch)\<lparr>state := SCAN_DECIMAL_EXPONENT_SIGN\<rparr>, False)
     else if in_range (CHR ''0'') (CHR ''9'') ch then (token_char e l ch, False)
     else finish_float e l)"

definition scan_decimal_exponent_sign ::
  "env \<Rightarrow> GCodeLexer \<Rightarrow> char \<Rightarrow> GCodeLexer \<times> bool" where
  "scan_decimal_exponent_sign e l ch =
    (if ch = CHR ''-'' then ((token_char e l ch)\<lparr>state := SCAN_DECIMAL_EXPONENT\<rparr>, False)
     else (l\<lparr>state := SCAN_DECIMAL_EXPONENT\<rparr>, True))"

definition scan_decimal_exponent :: "env \<Rightarrow> GCodeLexer \<Rightarrow> char \<Rightarrow> GCodeLexer \<times> bool" where
  "scan_decimal_exponent e l ch =
    (if in_range (CHR ''0'') (CHR ''9'') ch then (token_char e l ch, False)
     else if digit_count l = 0
     then (ERROR (free_token l) ''No digits after decimal exponent delimiter'', False)
     else finish_float e l)"

definition scan_hex_float :: "env \<Rightarrow> GCodeLexer \<Rightarrow> char \<Rightarrow> GCodeLexer \<times> bool" where
  "scan_hex_float e l ch =
    (if ch = CHR ''.''
     then ((token_char e l ch)\<lparr>state := SCAN_HEX_FRACTION\<rparr>, False)
     else if ch = CHR ''p'' \<or> ch = CHR ''P''
     then ((token_char e l ch)\<lparr>state := SCAN_HEX_EXPONENT_SIGN\<rparr>, False)
     else if hex_digit_to_int ch \<noteq> - 1 then (token_char e l ch, False)
     else finish_float e l)"

definition scan_hex_fraction :: "env \<Rightarrow> GCodeLexer \<Rightarrow> char \<Rightarrow> GCodeLexer \<times> bool" where
  "scan_hex_fraction e l ch =
    (if ch = CHR ''p'' \<or> ch = CHR ''P''
     then ((token_char e l ch)\<lparr>state := SCAN_HEX_EXPONENT_SIGN\<rparr>, False)
     else if hex_digit_to_int ch \<noteq> - 1 then (token_char e l ch, False)
     else finish_float e l)"

definition scan_hex_exponent_sign :: "env \<Rightarrow> GCodeLexer \<Rightarrow> char \<Rightarrow> GCodeLexer \<times> bool" where
  "scan_hex_exponent_sign e l ch =
    (if ch = CHR ''-'' then ((token_char e l ch)\<lparr>state := SCAN_HEX_EXPONENT\<rparr>, False)
     else (l\<lparr>state := SCAN_HEX_EXPONENT\<rparr>, True))"

definition scan_hex_exponent :: "env \<Rightarrow> GCodeLexer \<Rightarrow> char \<Rightarrow> GCodeLexer \<times> bool" where
  "scan_hex_exponent e l ch =
    (if hex_digit_to_int ch \<noteq> - 1 then (token_char e l ch, False)
     else if digit_count l = 0
     then (ERROR (free_token l) ''No digits after hex exponent delimiter'', False)
     else ((fst (emit_float e l))\<lparr>state := SCAN_EXPR\<rparr>, True))"


section \<open>The lexer: the loop and the public operations\<close>

text \<open>
  The \<^verbatim>\<open>switch (lexer->state)\<close>. Its \<^verbatim>\<open>default\<close> branch (an unknown state) has no
  counterpart: every value of \<^typ>\<open>state_t\<close> is one of the cases.
\<close>

definition scan_switch :: "env \<Rightarrow> GCodeLexer \<Rightarrow> char \<Rightarrow> GCodeLexer \<times> bool" where
  "scan_switch e l ch =
    (case state l of
       SCAN_NEWLINE \<Rightarrow> scan_newline l ch
     | SCAN_ERROR \<Rightarrow> scan_error l ch
     | SCAN_LINENO \<Rightarrow> scan_lineno l ch
     | SCAN_AFTER_LINENO \<Rightarrow> scan_after_lineno l ch
     | SCAN_COMMAND_NAME \<Rightarrow> scan_command_name e l ch
     | SCAN_ARGS \<Rightarrow> scan_args e l ch
     | SCAN_EXTENDED_KEY \<Rightarrow> scan_extended_key e l ch
     | SCAN_AFTER_EXTENDED_KEY \<Rightarrow> scan_after_extended_key e l ch
     | SCAN_AFTER_EXTENDED_SEPARATOR \<Rightarrow> scan_after_extended_separator e l ch
     | SCAN_AFTER_TRADITIONAL_KEY \<Rightarrow> scan_after_traditional_key e l ch
     | SCAN_ARG_VALUE \<Rightarrow> scan_arg_value e l ch
     | SCAN_COMMENT \<Rightarrow> scan_comment e l ch
     | SCAN_EMPTY_LINE_COMMENT \<Rightarrow> scan_empty_line_comment l ch
     | SCAN_EXPR \<Rightarrow> scan_expr e l ch
     | SCAN_AFTER_EXPR \<Rightarrow> scan_after_expr e l ch
     | SCAN_SYMBOL \<Rightarrow> scan_symbol e l ch
     | SCAN_IDENTIFIER \<Rightarrow> scan_identifier e l ch
     | SCAN_STR \<Rightarrow> scan_str e l ch
     | SCAN_STR_ESCAPE \<Rightarrow> scan_str_escape e l ch
     | SCAN_STR_OCTAL \<Rightarrow> scan_str_octal e l ch
     | SCAN_STR_HEX \<Rightarrow> scan_str_hex e l ch
     | SCAN_STR_LOW_UNICODE \<Rightarrow> scan_str_low_unicode e l ch
     | SCAN_STR_HIGH_UNICODE \<Rightarrow> scan_str_high_unicode e l ch
     | SCAN_NUMBER_BASE \<Rightarrow> scan_number_base e l ch
     | SCAN_DECIMAL \<Rightarrow> scan_decimal e l ch
     | SCAN_HEX \<Rightarrow> scan_hex e l ch
     | SCAN_BINARY \<Rightarrow> scan_binary e l ch
     | SCAN_OCTAL \<Rightarrow> scan_octal e l ch
     | SCAN_DOT \<Rightarrow> scan_dot e l ch
     | SCAN_DECIMAL_FLOAT \<Rightarrow> scan_decimal_float e l ch
     | SCAN_DECIMAL_FRACTION \<Rightarrow> scan_decimal_fraction e l ch
     | SCAN_DECIMAL_EXPONENT_SIGN \<Rightarrow> scan_decimal_exponent_sign e l ch
     | SCAN_DECIMAL_EXPONENT \<Rightarrow> scan_decimal_exponent e l ch
     | SCAN_HEX_FLOAT \<Rightarrow> scan_hex_float e l ch
     | SCAN_HEX_FRACTION \<Rightarrow> scan_hex_fraction e l ch
     | SCAN_HEX_EXPONENT_SIGN \<Rightarrow> scan_hex_exponent_sign e l ch
     | SCAN_HEX_EXPONENT \<Rightarrow> scan_hex_exponent e l ch)"

text \<open>
  The end of the loop body: \<^verbatim>\<open>if (ch == '\n') { line++; column = 1; } else column++;\<close>
  After \<^verbatim>\<open>BACK_UP\<close> the variable \<^verbatim>\<open>ch\<close> holds 0.
\<close>

definition advance :: "GCodeLexer \<Rightarrow> char \<Rightarrow> GCodeLexer" where
  "advance l ch =
    (if ch = NL then l\<lparr>line := line l + 1, column := 1\<rparr> else l\<lparr>column := column l + 1\<rparr>)"

text \<open>
  How many more times in a row a state can execute \<^verbatim>\<open>BACK_UP\<close>: the measure that ends the
  re-reading of one byte.
\<close>

definition backup_rank :: "state_t \<Rightarrow> nat" where
  "backup_rank s =
    (if s = SCAN_AFTER_EXPR \<or> s = SCAN_STR_ESCAPE \<or> s = SCAN_NUMBER_BASE
        \<or> s = SCAN_DECIMAL_EXPONENT_SIGN \<or> s = SCAN_HEX_EXPONENT_SIGN then 2
     else if s = SCAN_COMMAND_NAME \<or> s = SCAN_ARG_VALUE \<or> s = SCAN_EXTENDED_KEY
        \<or> s = SCAN_EXPR \<or> s = SCAN_ERROR \<or> s = SCAN_STR then 0
     else 1)"



subsection \<open>A backed-up byte is read by a state of lower rank\<close>

lemma emit_int_state: "snd (emit_int e l v) \<or> state (fst (emit_int e l v)) = SCAN_ERROR"
  by (auto simp: emit_int_def invoke_def split: if_splits)

lemma EMIT_INT_state: "snd (EMIT_INT e l) \<or> state (fst (EMIT_INT e l)) = SCAN_ERROR"
  by (simp add: EMIT_INT_def emit_int_state)

lemma emit_float_state: "snd (emit_float e l) \<or> state (fst (emit_float e l)) = SCAN_ERROR"
  by (auto simp: emit_float_def invoke_def ERROR_def Let_def split: if_splits)

lemma finish_float_state:
  "snd (finish_float e l) \<and> state (fst (finish_float e l)) \<in> {SCAN_EXPR, SCAN_ERROR}"
  using emit_float_state [of e l]
  by (auto simp: finish_float_def split: prod.splits)

lemma scan_after_expr_default_state:
  "state (scan_after_expr_default e l ch) \<in> {SCAN_ARG_VALUE, SCAN_AFTER_TRADITIONAL_KEY, SCAN_EXTENDED_KEY}"
  by (simp add: scan_after_expr_default_def Let_def)

lemma scan_newline_backup:
  "snd (scan_newline l ch) \<Longrightarrow> state (fst (scan_newline l ch)) = SCAN_COMMAND_NAME"
  by (simp add: scan_newline_def Let_def split: if_splits)

lemma scan_error_backup: "\<not> snd (scan_error l ch)"
  by (simp add: scan_error_def)

lemma scan_lineno_backup: "\<not> snd (scan_lineno l ch)"
  by (simp add: scan_lineno_def)

lemma scan_after_lineno_backup:
  "snd (scan_after_lineno l ch) \<Longrightarrow> state (fst (scan_after_lineno l ch)) = SCAN_COMMAND_NAME"
  by (simp add: scan_after_lineno_def split: if_splits)

lemma scan_command_name_backup: "\<not> snd (scan_command_name e l ch)"
  by (simp add: scan_command_name_def split: prod.splits)

lemma scan_args_backup: "\<not> snd (scan_args e l ch)"
  by (simp add: scan_args_def Let_def split: prod.splits arg_mode_t.splits)

lemma scan_extended_key_backup: "\<not> snd (scan_extended_key e l ch)"
  by (simp add: scan_extended_key_def split: prod.splits)

lemma scan_after_extended_key_backup: "\<not> snd (scan_after_extended_key e l ch)"
  by (simp add: scan_after_extended_key_def)

lemma scan_after_extended_separator_backup:
  "snd (scan_after_extended_separator e l ch) \<Longrightarrow>
     state (fst (scan_after_extended_separator e l ch)) = SCAN_ARG_VALUE"
  by (simp add: scan_after_extended_separator_def split: if_splits)

lemma scan_after_traditional_key_backup:
  "snd (scan_after_traditional_key e l ch) \<Longrightarrow>
     state (fst (scan_after_traditional_key e l ch)) = SCAN_ARG_VALUE"
  by (simp add: scan_after_traditional_key_def split: if_splits)

lemma scan_arg_value_backup: "\<not> snd (scan_arg_value e l ch)"
  by (simp add: scan_arg_value_def split: prod.splits)

lemma scan_comment_backup: "\<not> snd (scan_comment e l ch)"
  by (simp add: scan_comment_def)

lemma scan_empty_line_comment_backup: "\<not> snd (scan_empty_line_comment l ch)"
  by (simp add: scan_empty_line_comment_def)

lemma scan_expr_backup: "\<not> snd (scan_expr e l ch)"
  by (simp add: scan_expr_def Let_def split: prod.splits)

lemma scan_after_expr_backup:
  "snd (scan_after_expr e l ch) \<Longrightarrow>
     state (fst (scan_after_expr e l ch))
       \<in> {SCAN_ARG_VALUE, SCAN_AFTER_TRADITIONAL_KEY, SCAN_EXTENDED_KEY}"
  using scan_after_expr_default_state [of e l ch]
  by (simp add: scan_after_expr_def split: if_splits)

lemma scan_symbol_backup:
  "snd (scan_symbol e l ch) \<Longrightarrow> state (fst (scan_symbol e l ch)) = SCAN_EXPR"
  by (auto simp: scan_symbol_def split: if_splits prod.splits)

lemma scan_identifier_backup:
  "snd (scan_identifier e l ch) \<Longrightarrow> state (fst (scan_identifier e l ch)) = SCAN_EXPR"
  by (simp add: scan_identifier_def split: if_splits prod.splits)

lemma scan_str_backup: "\<not> snd (scan_str e l ch)"
  by (simp add: scan_str_def split: prod.splits)

lemma scan_str_escape_backup:
  "snd (scan_str_escape e l ch) \<Longrightarrow> state (fst (scan_str_escape e l ch)) = SCAN_STR_OCTAL"
  by (simp add: scan_str_escape_def split: if_splits option.splits)

lemma scan_str_octal_backup:
  "snd (scan_str_octal e l ch) \<Longrightarrow> state (fst (scan_str_octal e l ch)) = SCAN_STR"
  by (simp add: scan_str_octal_def split: if_splits prod.splits)

lemma scan_str_hex_backup:
  "snd (scan_str_hex e l ch) \<Longrightarrow> state (fst (scan_str_hex e l ch)) = SCAN_STR"
  by (simp add: scan_str_hex_def Let_def split: if_splits prod.splits)

lemma scan_str_low_unicode_backup: "\<not> snd (scan_str_low_unicode e l ch)"
  by (simp add: scan_str_low_unicode_def Let_def)

lemma scan_str_high_unicode_backup: "\<not> snd (scan_str_high_unicode e l ch)"
  by (simp add: scan_str_high_unicode_def Let_def split: prod.splits)

lemma scan_number_base_backup:
  "snd (scan_number_base e l ch) \<Longrightarrow>
     state (fst (scan_number_base e l ch)) \<in> {SCAN_OCTAL, SCAN_EXPR, SCAN_ERROR}"
  using emit_int_state [of e "free_token l" 0]
  by (auto simp: scan_number_base_def split: if_splits prod.splits)

lemma scan_decimal_backup:
  "snd (scan_decimal e l ch) \<Longrightarrow> state (fst (scan_decimal e l ch)) \<in> {SCAN_EXPR, SCAN_ERROR}"
  using emit_int_state [of e "free_token l" "ucast (int_value l)"]
  by (auto simp: scan_decimal_def Let_def split: if_splits prod.splits)

lemma scan_hex_backup:
  "snd (scan_hex e l ch) \<Longrightarrow> state (fst (scan_hex e l ch)) \<in> {SCAN_EXPR, SCAN_ERROR}"
  using EMIT_INT_state [of e "free_token l"]
  by (auto simp: scan_hex_def Let_def split: if_splits prod.splits)

lemma scan_binary_backup:
  "snd (scan_binary e l ch) \<Longrightarrow> state (fst (scan_binary e l ch)) \<in> {SCAN_EXPR, SCAN_ERROR}"
  using EMIT_INT_state [of e l]
  by (auto simp: scan_binary_def split: if_splits prod.splits)

lemma scan_octal_backup:
  "snd (scan_octal e l ch) \<Longrightarrow> state (fst (scan_octal e l ch)) \<in> {SCAN_EXPR, SCAN_ERROR}"
  using EMIT_INT_state [of e l]
  by (auto simp: scan_octal_def split: if_splits prod.splits)

lemma scan_dot_backup:
  "snd (scan_dot e l ch) \<Longrightarrow> state (fst (scan_dot e l ch)) = SCAN_EXPR"
  by (simp add: scan_dot_def split: if_splits prod.splits)

lemma scan_decimal_float_backup:
  "snd (scan_decimal_float e l ch) \<Longrightarrow>
     state (fst (scan_decimal_float e l ch)) \<in> {SCAN_EXPR, SCAN_ERROR}"
  using finish_float_state [of e l]
  by (simp add: scan_decimal_float_def split: if_splits)

lemma scan_decimal_fraction_backup:
  "snd (scan_decimal_fraction e l ch) \<Longrightarrow>
     state (fst (scan_decimal_fraction e l ch)) \<in> {SCAN_EXPR, SCAN_ERROR}"
  using finish_float_state [of e l]
  by (simp add: scan_decimal_fraction_def split: if_splits)

lemma scan_decimal_exponent_sign_backup:
  "snd (scan_decimal_exponent_sign e l ch) \<Longrightarrow>
     state (fst (scan_decimal_exponent_sign e l ch)) = SCAN_DECIMAL_EXPONENT"
  by (simp add: scan_decimal_exponent_sign_def split: if_splits)

lemma scan_decimal_exponent_backup:
  "snd (scan_decimal_exponent e l ch) \<Longrightarrow>
     state (fst (scan_decimal_exponent e l ch)) \<in> {SCAN_EXPR, SCAN_ERROR}"
  using finish_float_state [of e l]
  by (simp add: scan_decimal_exponent_def split: if_splits)

lemma scan_hex_float_backup:
  "snd (scan_hex_float e l ch) \<Longrightarrow>
     state (fst (scan_hex_float e l ch)) \<in> {SCAN_EXPR, SCAN_ERROR}"
  using finish_float_state [of e l]
  by (simp add: scan_hex_float_def split: if_splits)

lemma scan_hex_fraction_backup:
  "snd (scan_hex_fraction e l ch) \<Longrightarrow>
     state (fst (scan_hex_fraction e l ch)) \<in> {SCAN_EXPR, SCAN_ERROR}"
  using finish_float_state [of e l]
  by (simp add: scan_hex_fraction_def split: if_splits)

lemma scan_hex_exponent_sign_backup:
  "snd (scan_hex_exponent_sign e l ch) \<Longrightarrow>
     state (fst (scan_hex_exponent_sign e l ch)) = SCAN_HEX_EXPONENT"
  by (simp add: scan_hex_exponent_sign_def split: if_splits)

lemma scan_hex_exponent_backup:
  "snd (scan_hex_exponent e l ch) \<Longrightarrow> state (fst (scan_hex_exponent e l ch)) = SCAN_EXPR"
  by (simp add: scan_hex_exponent_def split: if_splits)

lemmas scan_backups_plain =
  scan_newline_backup scan_error_backup scan_lineno_backup scan_after_lineno_backup
  scan_empty_line_comment_backup

lemmas scan_backups_env =
  scan_command_name_backup scan_args_backup scan_extended_key_backup
  scan_after_extended_key_backup scan_after_extended_separator_backup
  scan_after_traditional_key_backup scan_arg_value_backup scan_comment_backup
  scan_expr_backup scan_after_expr_backup
  scan_symbol_backup scan_identifier_backup scan_str_backup scan_str_escape_backup
  scan_str_octal_backup scan_str_hex_backup scan_str_low_unicode_backup
  scan_str_high_unicode_backup scan_number_base_backup scan_decimal_backup scan_hex_backup
  scan_binary_backup scan_octal_backup scan_dot_backup scan_decimal_float_backup
  scan_decimal_fraction_backup scan_decimal_exponent_sign_backup
  scan_decimal_exponent_backup scan_hex_float_backup scan_hex_fraction_backup
  scan_hex_exponent_sign_backup scan_hex_exponent_backup

lemma backup_decreases:
  assumes "snd (scan_switch e l ch)"
  shows "backup_rank (state (fst (scan_switch e l ch))) < backup_rank (state l)"
proof (cases "state l")
qed (use assms scan_backups_env [of e l ch] scan_backups_plain [of l ch] in
      \<open>auto simp: scan_switch_def backup_rank_def\<close>)

lemma advance_state: "state (advance l ch) = state l"
  by (simp add: advance_def)

text \<open>
  \<^verbatim>\<open>gcode_lexer_scan (lexer, buffer, length)\<close>, the buffer as the list of its bytes. The
  \<^verbatim>\<open>for\<close> loop runs the switch on the current byte and then either moves to the next
  byte or, after \<^verbatim>\<open>BACK_UP\<close>, stays on the same one. It terminates because a state that
  backs up hands the byte to a state of lower rank.
\<close>

function gcode_lexer_scan :: "env \<Rightarrow> GCodeLexer \<Rightarrow> string \<Rightarrow> GCodeLexer" where
  "gcode_lexer_scan e l [] = l"
| "gcode_lexer_scan e l (ch # rest) =
    (case scan_switch e l ch of
       (l1, backed_up) \<Rightarrow>
         if backed_up then gcode_lexer_scan e (advance l1 NUL) (ch # rest)
         else gcode_lexer_scan e (advance l1 ch) rest)"
  by pat_completeness auto
termination
proof (relation "measure (\<lambda>(e, l, buf). 3 * length buf + backup_rank (state l))")
  show "wf (measure (\<lambda>(e, l, buf). 3 * length buf + backup_rank (state l)))"
    by simp
next
  fix e l ch rest x1 x2
  assume "(x1, x2) = scan_switch e l ch" and x2
  with backup_decreases [of e l ch]
  show "((e, advance x1 NUL, ch # rest), (e, l, ch # rest))
          \<in> measure (\<lambda>(e, l, buf). 3 * length buf + backup_rank (state l))"
    by (simp add: advance_state) (metis fst_conv snd_conv)
next
  fix e l ch rest x1 x2
  assume "(x1, x2) = scan_switch e l ch" and "\<not> x2"
  show "((e, advance x1 ch, rest), (e, l, ch # rest))
          \<in> measure (\<lambda>(e, l, buf). 3 * length buf + backup_rank (state l))"
    by (simp add: advance_state backup_rank_def)
qed


text \<open>\<^verbatim>\<open>gcode_lexer_finish\<close>: a final newline unless the lexer is at the start of a line.\<close>

definition gcode_lexer_finish :: "env \<Rightarrow> GCodeLexer \<Rightarrow> GCodeLexer" where
  "gcode_lexer_finish e l = (if state l \<noteq> SCAN_NEWLINE then gcode_lexer_scan e l [NL] else l)"

definition gcode_lexer_reset :: "GCodeLexer \<Rightarrow> GCodeLexer" where
  "gcode_lexer_reset l = l\<lparr>state := SCAN_NEWLINE, token_length := 0, line := 1, column := 1\<rparr>"

text \<open>
  \<^verbatim>\<open>gcode_lexer_new (context, location)\<close>: the fields that the function does not assign
  keep what \<^verbatim>\<open>malloc\<close> left in them.
\<close>

definition gcode_lexer_new :: "env \<Rightarrow> call list \<Rightarrow> GCodeLocation option \<Rightarrow> GCodeLexer" where
  "gcode_lexer_new e context_arg location_arg =
    gcode_lexer_reset
      ((malloc_lexer e)\<lparr>ctx := context_arg, location := location_arg,
                        token_str := [], token_length := 0,
                        error_str := [], error_limit := 0\<rparr>)"


section \<open>Examples of environments\<close>

text \<open>
  A lexer structure in zero-filled memory, and the environment in which every callback
  returns true, fresh memory is zero-filled, \<^verbatim>\<open>strtod\<close> converts the whole of every text
  and \<^verbatim>\<open>wctomb\<close> encodes nothing.
\<close>

definition zero_lexer :: GCodeLexer where
  "zero_lexer =
    \<lparr>ctx = [], state = SCAN_NEWLINE, token_str = [], token_length = 0,
     error_str = [], error_limit = 0, expr_nesting = 0, int_value = 0, digit_count = 0,
     line = 0, column = 0, arg_mode = ARG_TRADITIONAL, after_str = SCAN_NEWLINE,
     in_arg_value = False, location = None\<rparr>"

definition env_zero :: env where
  "env_zero =
    \<lparr>returns = (\<lambda>_ _. True), heap_byte = (\<lambda>_. NUL), strtod_consumed = length,
     wctomb = (\<lambda>_. None), malloc_lexer = zero_lexer\<rparr>"

text \<open>The calls that a new lexer makes in \<open>env_zero\<close> when it scans a text in one piece.\<close>

definition calls_of :: "string \<Rightarrow> call list" where
  "calls_of s = ctx (gcode_lexer_scan env_zero (gcode_lexer_new env_zero [] None) s)"

text \<open>
  The calls that a lexer makes while it scans a text in \<open>env_zero\<close> after it was
  created, scanned an earlier text and was reset.
\<close>

definition calls_after_reset :: "string \<Rightarrow> string \<Rightarrow> call list" where
  "calls_after_reset prior s =
    (let l = gcode_lexer_reset
               (gcode_lexer_scan env_zero (gcode_lexer_new env_zero [] None) prior)
     in drop (length (ctx l)) (ctx (gcode_lexer_scan env_zero l s)))"

text \<open>
  The environment \<open>env_zero\<close>, except that the callbacks return false for the one call
  \<open>r\<close>; the calls that a new lexer makes in it when it scans a text, and the state in
  which the scan leaves the lexer.
\<close>

definition env_refusing :: "call \<Rightarrow> env" where
  "env_refusing r = env_zero\<lparr>returns := (\<lambda>_ c. c \<noteq> r)\<rparr>"

definition calls_refusing :: "call \<Rightarrow> string \<Rightarrow> call list" where
  "calls_refusing r s =
    ctx (gcode_lexer_scan (env_refusing r) (gcode_lexer_new (env_refusing r) [] None) s)"

definition state_refusing :: "call \<Rightarrow> string \<Rightarrow> state_t" where
  "state_refusing r s =
    state (gcode_lexer_scan (env_refusing r) (gcode_lexer_new (env_refusing r) [] None) s)"

section \<open>The token in progress\<close>

text \<open>
  \<open>tok\<close> is the token collected so far, the first \<^verbatim>\<open>token_length\<close> bytes of the buffer;
  \<open>tok_ok\<close> says that it lies inside the allocation. \<open>peek\<close> is the byte at an offset of
  the buffer, or beyond the allocation the byte that the next allocation leaves there.
\<close>

definition tok :: "GCodeLexer \<Rightarrow> string" where
  "tok l = take (token_length l) (token_str l)"

definition tok_ok :: "GCodeLexer \<Rightarrow> bool" where
  "tok_ok l = (token_length l \<le> length (token_str l))"

definition peek :: "env \<Rightarrow> GCodeLexer \<Rightarrow> nat \<Rightarrow> char" where
  "peek e l i = (if i < length (token_str l) then token_str l ! i else heap_byte e i)"

text \<open>The lexer after a state has appended the bytes \<open>map f cs\<close> to the token, one per byte read.\<close>

definition appended :: "env \<Rightarrow> (char \<Rightarrow> char) \<Rightarrow> GCodeLexer \<Rightarrow> string \<Rightarrow> GCodeLexer" where
  "appended e f l cs = foldl (\<lambda>l c. advance (token_char e l (f c)) c) l cs"

text \<open>The bytes that \<^verbatim>\<open>SCAN_COMMAND_NAME\<close> appends to the name.\<close>

definition name_char :: "char \<Rightarrow> bool" where
  "name_char c =
    (c \<noteq> ENTER_EXPR \<and> c \<noteq> DQUOTE \<and> c \<noteq> NL \<and> \<not> CASE_SPACE c \<and> c \<noteq> CHR '';'')"

text \<open>The bytes that \<^verbatim>\<open>SCAN_ARG_VALUE\<close> appends to a raw argument.\<close>

definition raw_char :: "char \<Rightarrow> bool" where
  "raw_char c = (c \<noteq> NL \<and> c \<noteq> DQUOTE \<and> c \<noteq> ENTER_EXPR)"

text \<open>The first byte of a raw argument: none of those that \<^verbatim>\<open>SCAN_ARGS\<close> treats specially.\<close>

definition raw_start :: "char \<Rightarrow> bool" where
  "raw_start c =
    (raw_char c \<and> \<not> CASE_SPACE c \<and> c \<noteq> CHR '';'' \<and> c \<noteq> CHR ''='')"

section \<open>The keyword table: what the lookup finds\<close>

lemma wordlist_length: "length wordlist = 33"
  by (simp add: wordlist_def)

lemma keyword_ids_eq:
  "keyword_ids =
    [(''~'', 266), (''IF'', 278), (''NAN'', 284), (''ELSE'', 279), ([NL], 262),
     (''>'', 274), (''>='', 276), (''INFINITY'', 285), (''-'', 268), (''<'', 273),
     (''<='', 275), (''AND'', 264), ('','', 281), (''*'', 271), (''**'', 270),
     (''+'', 267), (''='', 265), (''OR'', 263), ('')'', 283), (''/'', 272),
     (''%'', 269), (''('', 282), (''.'', 280), (''!'', 277)]"
  by (simp add: keyword_ids_def wordlist_def)

text \<open>The hash is perfect: every keyword stands at the index that its hash value gives.\<close>

lemma wordlist_perfect:
  "list_all (\<lambda>k. fst (wordlist ! k) \<noteq> [] \<longrightarrow>
      k = length (fst (wordlist ! k)) + asso_values ! of_char (str_head (fst (wordlist ! k))))
    [0..<33]"
  by code_simp

lemma lookup_hits:
  "list_all (\<lambda>e. gcode_keyword_lookup (fst e) (length (fst e)) = Some e) keyword_ids"
  by code_simp

lemma asso_nul: "asso_values ! 0 = 33"
  by (simp add: asso_values_def)

lemma lookup_SomeD:
  assumes "gcode_keyword_lookup str len = Some e"
  shows "e \<in> set keyword_ids \<and> fst e = str \<and> len = length str"
proof -
  let ?key = "hash str len"
  from assms have key: "?key \<le> 32" and e: "e = wordlist ! ?key"
    and hd: "str_head str = str_head (fst e)" and tl: "tl str = tl (fst e)"
    by (auto simp: gcode_keyword_lookup_def Let_def MAX_HASH_VALUE_def split: if_splits)
  have nz: "str_head str \<noteq> NUL"
  proof
    assume "str_head str = NUL"
    then have "?key = len + 33" by (simp add: hash_def asso_nul)
    with key show False by simp
  qed
  then have str: "str \<noteq> []" by (auto simp: str_head_def)
  from nz hd have ne: "fst e \<noteq> []" by (auto simp: str_head_def)
  with str hd tl have eq: "fst e = str"
    by (cases str; cases "fst e") (auto simp: str_head_def)
  from key have "?key < length wordlist" by (simp add: wordlist_length)
  with e have "e \<in> set wordlist" by simp
  with ne have mem: "e \<in> set keyword_ids" by (simp add: keyword_ids_def)
  from key have "?key \<in> set [0..<33]" by simp
  with wordlist_perfect e ne
  have "?key = length (fst e) + asso_values ! of_char (str_head (fst e))"
    unfolding list_all_iff by blast
  with eq have "len = length str" by (simp add: hash_def)
  with mem eq show ?thesis by simp
qed

lemma keyword_ids_distinct: "distinct (map fst keyword_ids)"
  unfolding keyword_ids_eq by simp

lemma lookup_general:
  "gcode_keyword_lookup str len =
     (if len = length str then map_option (Pair str) (map_of keyword_ids str) else None)"
proof (cases "gcode_keyword_lookup str len")
  case None
  show ?thesis
  proof (cases "len = length str \<and> map_of keyword_ids str \<noteq> None")
    case True
    then obtain i where "map_of keyword_ids str = Some i" by auto
    then have "(str, i) \<in> set keyword_ids" by (rule map_of_SomeD)
    with lookup_hits have "gcode_keyword_lookup str (length str) = Some (str, i)"
      unfolding list_all_iff by fastforce
    with None True show ?thesis by simp
  next
    case False
    with None show ?thesis by auto
  qed
next
  case (Some e)
  from lookup_SomeD [OF Some] have mem: "e \<in> set keyword_ids" and f: "fst e = str"
    and l: "len = length str" by simp_all
  from mem f have "(str, snd e) \<in> set keyword_ids" by (metis prod.collapse)
  with keyword_ids_distinct have "map_of keyword_ids str = Some (snd e)" by simp
  with Some l f show ?thesis by (cases e) simp
qed

text \<open>
  Claim C4, as amended. The lookup of a string with its length returns an entry exactly
  for the 24 strings of the generated table, with the token ids 262 to 285 listed here;
  for every other string, and for every length that is not the string's, it returns the
  null pointer. The table has no entry for the brackets, the braces, TRUE or FALSE.
\<close>

theorem keyword_lookup_exact:
  "gcode_keyword_lookup str len =
     (if len = length str
      then map_option (Pair str)
             (map_of
               [(''~'', 266), (''IF'', 278), (''NAN'', 284), (''ELSE'', 279), ([NL], 262),
                (''>'', 274), (''>='', 276), (''INFINITY'', 285), (''-'', 268), (''<'', 273),
                (''<='', 275), (''AND'', 264), ('','', 281), (''*'', 271), (''**'', 270),
                (''+'', 267), (''='', 265), (''OR'', 263), ('')'', 283), (''/'', 272),
                (''%'', 269), (''('', 282), (''.'', 280), (''!'', 277)] str)
      else None)"
  unfolding lookup_general keyword_ids_eq ..

text \<open>
  Claim C4 as stated fails: the strings \<open>[\<close>, \<open>]\<close>, \<open>{\<close>, \<open>}\<close>, \<open>TRUE\<close> and \<open>FALSE\<close>
  of the documented keyword set are not found.
\<close>

theorem keyword_lookup_misses:
  "gcode_keyword_lookup ''['' 1 = None \<and> gcode_keyword_lookup '']'' 1 = None
   \<and> gcode_keyword_lookup [ENTER_EXPR] 1 = None \<and> gcode_keyword_lookup [EXIT_EXPR] 1 = None
   \<and> gcode_keyword_lookup ''TRUE'' 4 = None \<and> gcode_keyword_lookup ''FALSE'' 5 = None"
  by code_simp

section \<open>Chunks\<close>

lemma scan_append:
  "gcode_lexer_scan e l (xs @ ys) = gcode_lexer_scan e (gcode_lexer_scan e l xs) ys"
proof (induction e l xs rule: gcode_lexer_scan.induct)
  case (1 e l)
  show ?case by simp
next
  case (2 e l ch rest)
  obtain l1 b where sw: "scan_switch e l ch = (l1, b)" by (cases "scan_switch e l ch")
  show ?case
  proof (cases b)
    case True
    with sw 2(1) [of l1 b] show ?thesis by simp
  next
    case False
    with sw 2(2) [of l1 b] show ?thesis by simp
  qed
qed

text \<open>
  Claim C1. Scanning the chunks of an input one call after the other leaves the lexer,
  and with it the sequence of callback invocations \<open>ctx\<close>, exactly as scanning the whole
  input in a single call does, for every input, every split into chunks, every lexer
  state and every behaviour of the callbacks.
\<close>

theorem chunk_boundary_invariance:
  "foldl (gcode_lexer_scan e) l chunks = gcode_lexer_scan e l (concat chunks)"
proof (induction chunks arbitrary: l)
  case Nil
  show ?case by simp
next
  case (Cons c cs)
  then show ?case by (simp add: scan_append)
qed

section \<open>The token buffer\<close>


lemma token_alloc_length:
  "length (token_str l) < length (token_str (token_alloc e l))"
  by (simp add: token_alloc_def token_limit_def)

lemma token_alloc_nth:
  assumes "i < length (token_str l)"
  shows "token_str (token_alloc e l) ! i = token_str l ! i"
proof -
  from assms have "token_str l \<noteq> []" by auto
  with assms show ?thesis by (simp add: token_alloc_def token_limit_def nth_append)
qed

lemma token_alloc_nth_new:
  "length (token_str l) \<le> i \<Longrightarrow> i < length (token_str (token_alloc e l)) \<Longrightarrow>
     token_str (token_alloc e l) ! i = heap_byte e i"
  by (auto simp: token_alloc_def token_limit_def nth_append)

lemma token_alloc_take:
  "n \<le> length (token_str l) \<Longrightarrow> take n (token_str (token_alloc e l)) = take n (token_str l)"
  by (cases "token_str l = []") (simp_all add: token_alloc_def token_limit_def)

lemma token_alloc_fields [simp]:
  "token_length (token_alloc e l) = token_length l"
  "ctx (token_alloc e l) = ctx l"
  "state (token_alloc e l) = state l"
  by (simp_all add: token_alloc_def)

lemma token_char_fields [simp]:
  "token_length (token_char e l c) = token_length l + 1"
  "ctx (token_char e l c) = ctx l"
  "state (token_char e l c) = state l"
  "error_str (token_char e l c) = error_str l"
  "error_limit (token_char e l c) = error_limit l"
  "expr_nesting (token_char e l c) = expr_nesting l"
  "int_value (token_char e l c) = int_value l"
  "digit_count (token_char e l c) = digit_count l"
  "line (token_char e l c) = line l"
  "column (token_char e l c) = column l"
  "arg_mode (token_char e l c) = arg_mode l"
  "after_str (token_char e l c) = after_str l"
  "in_arg_value (token_char e l c) = in_arg_value l"
  "location (token_char e l c) = location l"
  by (simp_all add: token_char_def token_alloc_def Let_def)

lemma token_char_ok: "tok_ok l \<Longrightarrow> token_length l < length (token_str (token_char e l c))"
  using token_alloc_length [of l e]
  by (auto simp: token_char_def tok_ok_def token_limit_def Let_def)

lemma token_char_tok_ok [simp]: "tok_ok l \<Longrightarrow> tok_ok (token_char e l c)"
  using token_char_ok [of l e c] by (simp add: tok_ok_def)

lemma token_char_tok [simp]: "tok_ok l \<Longrightarrow> tok (token_char e l c) = tok l @ [c]"
  using token_alloc_length [of l e] token_alloc_take [of "token_length l" l e]
  by (auto simp: token_char_def tok_def tok_ok_def token_limit_def Let_def
        take_Suc_conv_app_nth)

lemma token_char_peek:
  "tok_ok l \<Longrightarrow> peek e (token_char e l c) i = (if i = token_length l then c else peek e l i)"
  using token_alloc_length [of l e] token_alloc_nth [of i l e] token_alloc_nth_new [of l i e]
  by (auto simp: token_char_def peek_def tok_ok_def token_limit_def Let_def)

lemma c_str_prefix:
  assumes "n < length buf" "buf ! n = NUL" "NUL \<notin> set (take n buf)"
  shows "c_str buf = take n buf"
proof -
  have "buf = take n buf @ NUL # drop (Suc n) buf"
    using assms(1,2) by (metis id_take_nth_drop)
  then have "c_str buf = takeWhile (\<lambda>c. c \<noteq> NUL) (take n buf @ NUL # drop (Suc n) buf)"
    by (simp add: c_str_def)
  also have "\<dots> = take n buf"
    using assms(3) by (subst takeWhile_append2) auto
  finally show ?thesis .
qed

lemma c_str_terminate:
  assumes "tok_ok l" "NUL \<notin> set (tok l)"
  shows "c_str (token_str (terminate_token e l)) = tok l"
proof -
  let ?l = "token_char e l NUL"
  have ok: "token_length l < length (token_str ?l)" using assms(1) by (rule token_char_ok)
  have t: "tok ?l = tok l @ [NUL]" using assms(1) by simp
  then have tk: "take (token_length l) (token_str ?l) = tok l"
    by (metis tok_def append_eq_conv_conj length_take min.absorb2 assms(1) tok_ok_def take_take
          token_char_fields(1) le_add1)
  have "token_str ?l ! token_length l = NUL"
    using token_char_peek [OF assms(1), of e NUL "token_length l"] ok by (simp add: peek_def)
  with ok tk assms(2) c_str_prefix [of "token_length l" "token_str ?l"]
  show ?thesis by (simp add: terminate_token_def)
qed

lemma c_str_peek:
  assumes "tok_ok l" "NUL \<notin> set (tok l)" "token_length l < length (token_str l)"
    "peek e l (token_length l) = NUL"
  shows "c_str (token_str l) = tok l"
  using assms c_str_prefix [of "token_length l" "token_str l"]
  by (simp add: peek_def tok_def)


section \<open>What the helpers leave unchanged\<close>


lemma tok_ok_update [simp]:
  "tok_ok (l\<lparr>state := s\<rparr>) = tok_ok l"
  "tok_ok (l\<lparr>ctx := cx\<rparr>) = tok_ok l"
  "tok_ok (l\<lparr>expr_nesting := n\<rparr>) = tok_ok l"
  "tok_ok (l\<lparr>arg_mode := m\<rparr>) = tok_ok l"
  "tok_ok (l\<lparr>location := lo\<rparr>) = tok_ok l"
  "tok_ok (l\<lparr>line := li\<rparr>) = tok_ok l"
  "tok_ok (l\<lparr>column := co\<rparr>) = tok_ok l"
  by (simp_all add: tok_ok_def)

lemma tok_update [simp]:
  "tok (l\<lparr>state := s\<rparr>) = tok l"
  "tok (l\<lparr>ctx := cx\<rparr>) = tok l"
  "tok (l\<lparr>expr_nesting := n\<rparr>) = tok l"
  "tok (l\<lparr>arg_mode := m\<rparr>) = tok l"
  "tok (l\<lparr>location := lo\<rparr>) = tok l"
  "tok (l\<lparr>line := li\<rparr>) = tok l"
  "tok (l\<lparr>column := co\<rparr>) = tok l"
  by (simp_all add: tok_def)

lemma peek_update [simp]:
  "peek e (l\<lparr>state := s\<rparr>) = peek e l"
  "peek e (l\<lparr>ctx := cx\<rparr>) = peek e l"
  "peek e (l\<lparr>expr_nesting := n\<rparr>) = peek e l"
  "peek e (l\<lparr>arg_mode := m\<rparr>) = peek e l"
  "peek e (l\<lparr>location := lo\<rparr>) = peek e l"
  "peek e (l\<lparr>line := li\<rparr>) = peek e l"
  "peek e (l\<lparr>column := co\<rparr>) = peek e l"
  by (simp_all add: peek_def fun_eq_iff)

lemma advance_fields [simp]:
  "state (advance l c) = state l"
  "ctx (advance l c) = ctx l"
  "token_str (advance l c) = token_str l"
  "token_length (advance l c) = token_length l"
  "arg_mode (advance l c) = arg_mode l"
  "in_arg_value (advance l c) = in_arg_value l"
  "expr_nesting (advance l c) = expr_nesting l"
  "tok (advance l c) = tok l"
  "tok_ok (advance l c) = tok_ok l"
  "peek e (advance l c) = peek e l"
  by (simp_all add: advance_def tok_def tok_ok_def peek_def fun_eq_iff)

lemma TOKEN_STOP_fields [simp]:
  "state (TOKEN_STOP l) = state l"
  "ctx (TOKEN_STOP l) = ctx l"
  "token_str (TOKEN_STOP l) = token_str l"
  "token_length (TOKEN_STOP l) = token_length l"
  "arg_mode (TOKEN_STOP l) = arg_mode l"
  "in_arg_value (TOKEN_STOP l) = in_arg_value l"
  "expr_nesting (TOKEN_STOP l) = expr_nesting l"
  "tok (TOKEN_STOP l) = tok l"
  "tok_ok (TOKEN_STOP l) = tok_ok l"
  "peek e (TOKEN_STOP l) = peek e l"
  by (simp_all add: TOKEN_STOP_def tok_def tok_ok_def peek_def fun_eq_iff split: option.splits)

lemma TOKEN_START_fields [simp]:
  "state (TOKEN_START l) = state l"
  "ctx (TOKEN_START l) = ctx l"
  "token_str (TOKEN_START l) = token_str l"
  "token_length (TOKEN_START l) = token_length l"
  "arg_mode (TOKEN_START l) = arg_mode l"
  "in_arg_value (TOKEN_START l) = in_arg_value l"
  "expr_nesting (TOKEN_START l) = expr_nesting l"
  "tok (TOKEN_START l) = tok l"
  "tok_ok (TOKEN_START l) = tok_ok l"
  "peek e (TOKEN_START l) = peek e l"
  by (simp_all add: TOKEN_START_def tok_def tok_ok_def peek_def fun_eq_iff split: option.splits)

lemma token_char_length_mono:
  "n < length (token_str l) \<Longrightarrow> n < length (token_str (token_char e l c))"
  using token_alloc_length [of l e]
  by (auto simp: token_char_def Let_def)

lemma token_char_length_fresh:
  "token_str l = [] \<Longrightarrow> token_length l = 0 \<Longrightarrow> length (token_str (token_char e l c)) = 128"
  by (simp add: token_char_def token_alloc_def token_limit_def Let_def)

lemma appended_simps [simp]:
  "appended e f l [] = l"
  "appended e f l (c # cs) = appended e f (advance (token_char e l (f c)) c) cs"
  by (simp_all add: appended_def)

lemma appended_fields [simp]:
  "state (appended e f l cs) = state l"
  "ctx (appended e f l cs) = ctx l"
  "arg_mode (appended e f l cs) = arg_mode l"
  "in_arg_value (appended e f l cs) = in_arg_value l"
  "expr_nesting (appended e f l cs) = expr_nesting l"
  "token_length (appended e f l cs) = token_length l + length cs"
  by (induction cs arbitrary: l; simp)+

lemma appended_tok:
  "tok_ok l \<Longrightarrow> tok_ok (appended e f l cs) \<and> tok (appended e f l cs) = tok l @ map f cs"
  by (induction cs arbitrary: l) simp_all

lemma appended_peek:
  "tok_ok l \<Longrightarrow> token_length l + length cs \<le> i \<Longrightarrow> peek e (appended e f l cs) i = peek e l i"
  by (induction cs arbitrary: l) (simp_all add: token_char_peek)

lemma appended_length_mono:
  "n < length (token_str l) \<Longrightarrow> n < length (token_str (appended e f l cs))"
  by (induction cs arbitrary: l) (simp_all add: token_char_length_mono)

lemma appended_length_fresh:
  "token_str l = [] \<Longrightarrow> token_length l = 0 \<Longrightarrow> cs \<noteq> [] \<Longrightarrow>
     128 \<le> length (token_str (appended e f l cs))"
proof (cases cs)
  case Nil
  assume "cs \<noteq> []" with Nil show ?thesis by simp
next
  case (Cons c cs')
  assume "token_str l = []" "token_length l = 0"
  then have "length (token_str (advance (token_char e l (f c)) c)) = 128"
    by (simp add: token_char_length_fresh)
  then have "127 < length (token_str (advance (token_char e l (f c)) c))" by simp
  then have "127 < length (token_str (appended e f (advance (token_char e l (f c)) c) cs'))"
    by (rule appended_length_mono)
  with Cons show ?thesis by simp
qed

text \<open>A run of bytes each of which a state appends without backing up.\<close>

lemma scan_appended:
  assumes step: "\<And>l c. I l \<Longrightarrow> c \<in> A \<Longrightarrow> scan_switch e l c = (token_char e l (f c), False)"
    and keep: "\<And>l c. I l \<Longrightarrow> I (advance (token_char e l (f c)) c)"
  shows "I l \<Longrightarrow> set cs \<subseteq> A \<Longrightarrow>
     gcode_lexer_scan e l (cs @ rest) = gcode_lexer_scan e (appended e f l cs) rest"
proof (induction cs arbitrary: l)
  case Nil
  show ?case by simp
next
  case (Cons c cs)
  from Cons.prems have "scan_switch e l c = (token_char e l (f c), False)"
    by (simp add: step)
  moreover from Cons.prems have "I (advance (token_char e l (f c)) c)" by (simp add: keep)
  ultimately show ?case using Cons.IH Cons.prems by simp
qed

text \<open>Bytes that a state passes over.\<close>

lemma scan_skipped:
  assumes step: "\<And>l c. I l \<Longrightarrow> c \<in> A \<Longrightarrow> scan_switch e l c = (l, False)"
    and keep: "\<And>l c. I l \<Longrightarrow> I (advance l c)"
  shows "I l \<Longrightarrow> set cs \<subseteq> A \<Longrightarrow>
     gcode_lexer_scan e l (cs @ rest) = gcode_lexer_scan e (foldl advance l cs) rest"
proof (induction cs arbitrary: l)
  case Nil
  show ?case by simp
next
  case (Cons c cs)
  from Cons.prems have "scan_switch e l c = (l, False)" by (simp add: step)
  moreover from Cons.prems have "I (advance l c)" by (simp add: keep)
  ultimately show ?case using Cons.IH Cons.prems by simp
qed

lemma foldl_advance_fields [simp]:
  "state (foldl advance l cs) = state l"
  "ctx (foldl advance l cs) = ctx l"
  "token_str (foldl advance l cs) = token_str l"
  "token_length (foldl advance l cs) = token_length l"
  "arg_mode (foldl advance l cs) = arg_mode l"
  "in_arg_value (foldl advance l cs) = in_arg_value l"
  "expr_nesting (foldl advance l cs) = expr_nesting l"
  "tok (foldl advance l cs) = tok l"
  "tok_ok (foldl advance l cs) = tok_ok l"
  "peek e (foldl advance l cs) = peek e l"
  by (induction cs arbitrary: l; simp)+



lemma free_token_fields [simp]:
  "state (free_token l) = state l"
  "ctx (free_token l) = ctx l"
  "token_str (free_token l) = token_str l"
  "token_length (free_token l) = 0"
  "arg_mode (free_token l) = arg_mode l"
  "in_arg_value (free_token l) = in_arg_value l"
  "expr_nesting (free_token l) = expr_nesting l"
  "tok (free_token l) = []"
  "tok_ok (free_token l)"
  "peek e (free_token l) = peek e l"
  by (simp_all add: free_token_def tok_def tok_ok_def peek_def fun_eq_iff)

lemma terminate_token_fields [simp]:
  "token_length (terminate_token e l) = token_length l + 1"
  "ctx (terminate_token e l) = ctx l"
  "state (terminate_token e l) = state l"
  "expr_nesting (terminate_token e l) = expr_nesting l"
  "arg_mode (terminate_token e l) = arg_mode l"
  "in_arg_value (terminate_token e l) = in_arg_value l"
  by (simp_all add: terminate_token_def)

lemma emit_end_of_statement_fields [simp]:
  "state (emit_end_of_statement e l) = SCAN_NEWLINE"
  "ctx (emit_end_of_statement e l) = ctx l @ [lex_end_statement]"
  "token_str (emit_end_of_statement e l) = token_str l"
  "token_length (emit_end_of_statement e l) = token_length l"
  "arg_mode (emit_end_of_statement e l) = arg_mode l"
  "in_arg_value (emit_end_of_statement e l) = in_arg_value l"
  "expr_nesting (emit_end_of_statement e l) = expr_nesting l"
  by (simp_all add: emit_end_of_statement_def invoke_def)

lemma emit_ident_fields [simp]:
  "token_length (fst (emit_ident e l)) = 0"
  "arg_mode (fst (emit_ident e l)) = arg_mode l"
  "in_arg_value (fst (emit_ident e l)) = in_arg_value l"
  "expr_nesting (fst (emit_ident e l)) = expr_nesting l"
  "tok_ok (fst (emit_ident e l))"
  by (simp_all add: emit_ident_def invoke_def Let_def)

lemma emit_ident_ctx:
  "tok_ok l \<Longrightarrow> NUL \<notin> set (tok l) \<Longrightarrow>
     ctx (fst (emit_ident e l)) = ctx l @ [lex_identifier (tok l)]"
  using c_str_terminate [of "TOKEN_STOP l" e]
  by (simp add: emit_ident_def invoke_def Let_def)

lemma emit_ident_state:
  "tok_ok l \<Longrightarrow> NUL \<notin> set (tok l) \<Longrightarrow>
     state (fst (emit_ident e l)) =
       (if returns e (ctx l) (lex_identifier (tok l)) then state l else SCAN_ERROR)"
  using c_str_terminate [of "TOKEN_STOP l" e]
  by (simp add: emit_ident_def invoke_def Let_def)

lemma emit_str_fields [simp]:
  "token_length (fst (emit_str e l)) = 0"
  "arg_mode (fst (emit_str e l)) = arg_mode l"
  "in_arg_value (fst (emit_str e l)) = in_arg_value l"
  "expr_nesting (fst (emit_str e l)) = expr_nesting l"
  "tok_ok (fst (emit_str e l))"
  by (simp_all add: emit_str_def invoke_def Let_def)

lemma emit_str_ctx:
  "tok_ok l \<Longrightarrow> NUL \<notin> set (tok l) \<Longrightarrow>
     ctx (fst (emit_str e l)) = ctx l @ [lex_str_literal (tok l)]"
  using c_str_terminate [of "TOKEN_STOP l" e]
  by (simp add: emit_str_def invoke_def Let_def)

text \<open>A comment on a line of its own.\<close>

lemma scan_empty_line_comment_run:
  assumes "state l = SCAN_EMPTY_LINE_COMMENT" "NL \<notin> set cs"
  shows "gcode_lexer_scan e l (cs @ rest) = gcode_lexer_scan e (foldl advance l cs) rest"
proof (rule scan_skipped [where I = "\<lambda>l. state l = SCAN_EMPTY_LINE_COMMENT" and A = "- {NL}"])
  show "state l = SCAN_EMPTY_LINE_COMMENT" by fact
  show "set cs \<subseteq> - {NL}" using assms(2) by auto
qed (simp_all add: scan_switch_def scan_empty_line_comment_def)

lemma scan_command_name_run:
  assumes "state l = SCAN_COMMAND_NAME" "\<forall>c \<in> set cs. name_char c"
  shows "gcode_lexer_scan e l (cs @ rest) = gcode_lexer_scan e (appended e to_upper l cs) rest"
proof (rule scan_appended [where I = "\<lambda>l. state l = SCAN_COMMAND_NAME" and A = "Collect name_char"])
  show "state l = SCAN_COMMAND_NAME" by fact
  show "set cs \<subseteq> Collect name_char" using assms(2) by auto
qed (simp_all add: scan_switch_def scan_command_name_def name_char_def TOKEN_CHAR_UPPER_def)

lemma gcode_lexer_new_fields [simp]:
  "state (gcode_lexer_new e c loc) = SCAN_NEWLINE"
  "ctx (gcode_lexer_new e c loc) = c"
  "token_str (gcode_lexer_new e c loc) = []"
  "token_length (gcode_lexer_new e c loc) = 0"
  "tok_ok (gcode_lexer_new e c loc)"
  "tok (gcode_lexer_new e c loc) = []"
  by (simp_all add: gcode_lexer_new_def gcode_lexer_reset_def tok_ok_def tok_def)

section \<open>The nesting counter\<close>

lemma ERROR_fields [simp]:
  "state (ERROR l msg) = SCAN_ERROR"
  "ctx (ERROR l msg) = ctx l"
  "token_str (ERROR l msg) = token_str l"
  "token_length (ERROR l msg) = token_length l"
  "arg_mode (ERROR l msg) = arg_mode l"
  "in_arg_value (ERROR l msg) = in_arg_value l"
  "expr_nesting (ERROR l msg) = expr_nesting l"
  by (simp_all add: ERROR_def emit_error_def error_printf_def Let_def case_prod_beta)

lemma invoke_fields [simp]:
  "expr_nesting (fst (invoke e l c)) = expr_nesting l"
  "state (fst (invoke e l c)) = state l"
  "ctx (fst (invoke e l c)) = ctx l @ [c]"
  "snd (invoke e l c) = returns e (ctx l) c"
  by (simp_all add: invoke_def)

lemma add_str_wchar_nesting [simp]: "expr_nesting (add_str_wchar e l) = expr_nesting l"
proof -
  have "expr_nesting (foldl (token_char e) l buf) = expr_nesting l" for buf
    by (induction buf arbitrary: l) simp_all
  then show ?thesis by (simp add: add_str_wchar_def split: option.splits)
qed

lemma emit_nesting [simp]:
  "expr_nesting (fst (emit_symbol e l)) = expr_nesting l"
  "expr_nesting (fst (emit_char_symbol e l ch)) = expr_nesting l"
  "expr_nesting (fst (emit_bridge e l)) = expr_nesting l"
  "expr_nesting (fst (emit_possible_str e l)) = expr_nesting l"
  "expr_nesting (fst (emit_int e l v)) = expr_nesting l"
  "expr_nesting (fst (EMIT_INT e l)) = expr_nesting l"
  "expr_nesting (fst (emit_float e l)) = expr_nesting l"
  "expr_nesting (fst (finish_float e l)) = expr_nesting l"
  "expr_nesting (fst (emit_keyword_or_identifier e l)) = expr_nesting l"
  "expr_nesting (fst (enter_args e l)) = expr_nesting l"
  "expr_nesting (fst (add_digit l d b m msg)) = expr_nesting l"
  "expr_nesting (add_safe_digit l d b) = expr_nesting l"
  "expr_nesting (token_char_int_value e l) = expr_nesting l"
  "expr_nesting (TOKEN_CHAR_UPPER e l ch) = expr_nesting l"
  "expr_nesting (TOKEN_CHAR_LOWER e l ch) = expr_nesting l"
  by (simp_all add: emit_symbol_def emit_char_symbol_def emit_bridge_def emit_possible_str_def
        emit_int_def EMIT_INT_def emit_float_def finish_float_def emit_keyword_or_identifier_def
        enter_args_def add_digit_def add_safe_digit_def token_char_int_value_def
        TOKEN_CHAR_UPPER_def TOKEN_CHAR_LOWER_def invoke_def Let_def case_prod_beta)

lemma end_arg_segment_nesting [simp]:
  "expr_nesting (end_arg_segment_tail e l ch) = expr_nesting l"
  "expr_nesting (end_arg_segment e l ch) = expr_nesting l"
  "expr_nesting (scan_after_expr_default e l ch) = expr_nesting l"
  by (simp_all add: end_arg_segment_tail_def end_arg_segment_def scan_after_expr_default_def
        Let_def case_prod_beta split: arg_mode_t.splits)

lemma enter_expr_nesting:
  "expr_nesting (fst (enter_expr e l)) = expr_nesting l \<or> expr_nesting (fst (enter_expr e l)) = 1"
  by (simp add: enter_expr_def case_prod_beta)

lemma emit_more_nesting [simp]:
  "expr_nesting (fst (emit_str e l)) = expr_nesting l"
  "expr_nesting (fst (emit_ident e l)) = expr_nesting l"
  "expr_nesting (emit_end_of_statement e l) = expr_nesting l"
  by simp_all

lemma scan_nesting_same:
  "expr_nesting (fst (scan_error l ch)) = expr_nesting l"
  "expr_nesting (fst (scan_lineno l ch)) = expr_nesting l"
  "expr_nesting (fst (scan_after_lineno l ch)) = expr_nesting l"
  "expr_nesting (fst (scan_command_name e l ch)) = expr_nesting l"
  "expr_nesting (fst (scan_args e l ch)) = expr_nesting l"
  "expr_nesting (fst (scan_after_extended_key e l ch)) = expr_nesting l"
  "expr_nesting (fst (scan_comment e l ch)) = expr_nesting l"
  "expr_nesting (fst (scan_empty_line_comment l ch)) = expr_nesting l"
  "expr_nesting (fst (scan_after_expr e l ch)) = expr_nesting l"
  "expr_nesting (fst (scan_symbol e l ch)) = expr_nesting l"
  "expr_nesting (fst (scan_identifier e l ch)) = expr_nesting l"
  "expr_nesting (fst (scan_str e l ch)) = expr_nesting l"
  by (simp_all add: scan_error_def scan_lineno_def scan_after_lineno_def scan_command_name_def
        scan_args_def scan_after_extended_key_def scan_comment_def scan_empty_line_comment_def
        scan_after_expr_def scan_symbol_def scan_identifier_def scan_str_def
        Let_def case_prod_beta split: arg_mode_t.splits)

lemma scan_nesting_same_str:
  "expr_nesting (fst (scan_str_escape e l ch)) = expr_nesting l"
  "expr_nesting (fst (scan_str_octal e l ch)) = expr_nesting l"
  "expr_nesting (fst (scan_str_hex e l ch)) = expr_nesting l"
  "expr_nesting (fst (scan_str_low_unicode e l ch)) = expr_nesting l"
  "expr_nesting (fst (scan_str_high_unicode e l ch)) = expr_nesting l"
  by (simp_all add: scan_str_escape_def scan_str_octal_def scan_str_hex_def
        scan_str_low_unicode_def scan_str_high_unicode_def
        Let_def case_prod_beta split: option.splits)

lemma scan_nesting_same_number:
  "expr_nesting (fst (scan_number_base e l ch)) = expr_nesting l"
  "expr_nesting (fst (scan_decimal e l ch)) = expr_nesting l"
  "expr_nesting (fst (scan_hex e l ch)) = expr_nesting l"
  "expr_nesting (fst (scan_binary e l ch)) = expr_nesting l"
  "expr_nesting (fst (scan_octal e l ch)) = expr_nesting l"
  "expr_nesting (fst (scan_dot e l ch)) = expr_nesting l"
  "expr_nesting (fst (scan_decimal_float e l ch)) = expr_nesting l"
  "expr_nesting (fst (scan_decimal_fraction e l ch)) = expr_nesting l"
  "expr_nesting (fst (scan_decimal_exponent_sign e l ch)) = expr_nesting l"
  "expr_nesting (fst (scan_decimal_exponent e l ch)) = expr_nesting l"
  "expr_nesting (fst (scan_hex_float e l ch)) = expr_nesting l"
  "expr_nesting (fst (scan_hex_fraction e l ch)) = expr_nesting l"
  "expr_nesting (fst (scan_hex_exponent_sign e l ch)) = expr_nesting l"
  "expr_nesting (fst (scan_hex_exponent e l ch)) = expr_nesting l"
  by (simp_all add: scan_number_base_def scan_decimal_def scan_hex_def scan_binary_def
        scan_octal_def scan_dot_def scan_decimal_float_def scan_decimal_fraction_def
        scan_decimal_exponent_sign_def scan_decimal_exponent_def scan_hex_float_def
        scan_hex_fraction_def scan_hex_exponent_sign_def scan_hex_exponent_def
        Let_def case_prod_beta)

lemma scan_nesting_enter:
  "expr_nesting (fst (scan_extended_key e l ch)) \<in> {expr_nesting l, 1}"
  "expr_nesting (fst (scan_after_extended_separator e l ch)) \<in> {expr_nesting l, 1}"
  "expr_nesting (fst (scan_after_traditional_key e l ch)) \<in> {expr_nesting l, 1}"
  "expr_nesting (fst (scan_arg_value e l ch)) \<in> {expr_nesting l, 1}"
  by (simp_all add: scan_extended_key_def scan_after_extended_separator_def
        scan_after_traditional_key_def scan_arg_value_def enter_expr_def
        Let_def case_prod_beta)

lemma scan_newline_nesting: "expr_nesting (fst (scan_newline l ch)) = 0"
  by (simp add: scan_newline_def Let_def)

lemma scan_expr_nesting:
  "expr_nesting (fst (scan_expr e l ch)) =
     (if ch = CHR ''('' then expr_nesting l + 1
      else if ch = CHR '')'' then (if expr_nesting l = 0 then 0 else expr_nesting l - 1)
      else if ch = EXIT_EXPR then 0
      else expr_nesting l)"
  by (auto simp: scan_expr_def Let_def case_prod_beta CASE_SPACE_def)


lemma unat_succ_le: "unat (w + 1 :: 64 word) \<le> unat w + 1"
  by (simp add: unat_word_ariths)

lemma unat_pred_le: "w \<noteq> 0 \<Longrightarrow> unat (w - 1 :: 64 word) \<le> unat w"
  by (simp add: unat_minus_one)

lemma nesting_step:
  "unat (expr_nesting (fst (scan_switch e l ch)))
     \<le> max 1 (unat (expr_nesting l))
        + (if state l = SCAN_EXPR \<and> ch = CHR ''('' then 1 else 0)"
proof (cases "state l")
  case SCAN_EXPR
  then show ?thesis
    using unat_succ_le [of "expr_nesting l"] unat_pred_le [of "expr_nesting l"]
    by (auto simp: scan_switch_def scan_expr_nesting)
next
  case SCAN_EXTENDED_KEY
  then show ?thesis using scan_nesting_enter(1) [of e l ch] by (auto simp: scan_switch_def)
next
  case SCAN_AFTER_EXTENDED_SEPARATOR
  then show ?thesis using scan_nesting_enter(2) [of e l ch] by (auto simp: scan_switch_def)
next
  case SCAN_AFTER_TRADITIONAL_KEY
  then show ?thesis using scan_nesting_enter(3) [of e l ch] by (auto simp: scan_switch_def)
next
  case SCAN_ARG_VALUE
  then show ?thesis using scan_nesting_enter(4) [of e l ch] by (auto simp: scan_switch_def)
qed (simp_all only: scan_switch_def state_t.case scan_nesting_same scan_nesting_same_str
       scan_nesting_same_number scan_newline_nesting, simp_all)

lemma nesting_step_backup:
  assumes "snd (scan_switch e l ch)"
  shows "unat (expr_nesting (fst (scan_switch e l ch))) \<le> max 1 (unat (expr_nesting l))"
proof -
  from assms have "state l \<noteq> SCAN_EXPR"
    using scan_expr_backup [of e l ch] by (auto simp: scan_switch_def)
  with nesting_step [of e l ch] show ?thesis by simp
qed

lemma nesting_bound:
  "unat (expr_nesting (gcode_lexer_scan e l xs))
     \<le> max 1 (unat (expr_nesting l)) + count_list xs (CHR ''('')"
proof (induction e l xs rule: gcode_lexer_scan.induct)
  case (1 e l)
  show ?case by simp
next
  case (2 e l ch rest)
  obtain l1 b where sw: "scan_switch e l ch = (l1, b)" by (cases "scan_switch e l ch")
  show ?case
  proof (cases b)
    case True
    with sw nesting_step_backup [of e l ch]
    have "unat (expr_nesting l1) \<le> max 1 (unat (expr_nesting l))" by simp
    moreover from True sw 2(1) [of l1 b]
    have "unat (expr_nesting (gcode_lexer_scan e (advance l1 NUL) (ch # rest)))
            \<le> max 1 (unat (expr_nesting l1)) + count_list (ch # rest) (CHR ''('')"
      by simp
    ultimately show ?thesis using True sw by simp
  next
    case False
    from sw nesting_step [of e l ch]
    have "unat (expr_nesting l1)
            \<le> max 1 (unat (expr_nesting l)) + (if ch = CHR ''('' then 1 else 0)"
      by (simp split: if_splits)
    moreover from False sw 2(2) [of l1 b]
    have "unat (expr_nesting (gcode_lexer_scan e (advance l1 ch) rest))
            \<le> max 1 (unat (expr_nesting l1)) + count_list rest (CHR ''('')"
      by simp
    ultimately show ?thesis using False sw by (simp split: if_splits)
  qed
qed

lemma newline_byte_resets:
  assumes "state l = SCAN_NEWLINE"
  shows "expr_nesting (gcode_lexer_scan e l [ch]) = 0"
proof -
  obtain l1 b where sw: "scan_switch e l ch = (l1, b)" by (cases "scan_switch e l ch")
  with assms have l1: "expr_nesting l1 = 0" and eq: "scan_newline l ch = (l1, b)"
    using scan_newline_nesting [of l ch] by (simp_all add: scan_switch_def)
  show ?thesis
  proof (cases b)
    case False
    with sw l1 show ?thesis by simp
  next
    case True
    with eq have st: "state l1 = SCAN_COMMAND_NAME"
      using scan_newline_backup [of l ch] by simp
    let ?l2 = "advance l1 NUL"
    from st have sw2: "scan_switch e ?l2 ch = scan_command_name e ?l2 ch"
      by (simp add: scan_switch_def)
    have nb: "\<not> snd (scan_command_name e ?l2 ch)" by (rule scan_command_name_backup)
    have "expr_nesting (fst (scan_command_name e ?l2 ch)) = 0"
      using l1 by (simp add: scan_nesting_same)
    with True sw sw2 nb show ?thesis by (simp add: case_prod_beta)
  qed
qed

lemma nesting_bound_from_newline:
  assumes "state l = SCAN_NEWLINE" "xs \<noteq> []"
  shows "unat (expr_nesting (gcode_lexer_scan e l xs)) \<le> 1 + count_list xs (CHR ''('')"
proof -
  from assms(2) obtain ch rest where xs: "xs = ch # rest" by (cases xs) auto
  obtain l1 b where sw: "scan_switch e l ch = (l1, b)" by (cases "scan_switch e l ch")
  with assms(1) have l1: "expr_nesting l1 = 0"
    using scan_newline_nesting [of l ch] by (simp add: scan_switch_def)
  show ?thesis
  proof (cases b)
    case True
    with sw xs l1 nesting_bound [of e "advance l1 NUL" "ch # rest"] show ?thesis by simp
  next
    case False
    have "unat (expr_nesting (gcode_lexer_scan e (advance l1 ch) rest))
            \<le> 1 + count_list rest (CHR ''('')"
      using l1 nesting_bound [of e "advance l1 ch" rest] by simp
    moreover have "count_list rest (CHR ''('') \<le> count_list xs (CHR ''('')"
      using xs by simp
    moreover have "gcode_lexer_scan e l xs = gcode_lexer_scan e (advance l1 ch) rest"
      using sw xs False by simp
    ultimately show ?thesis by simp
  qed
qed

text \<open>
  Claim C9. In an expression, \<open>)\<close> leaves a counter of zero at zero and otherwise
  lowers it by one, so the unsigned value never passes below zero; \<open>(\<close> raises it by
  one, and by exactly one as a number unless the counter stands at its maximum;
  \<open>}\<close> sets it to zero. A byte read in the Newline state leaves it at zero, also after
  the byte was read again as the start of a command name. Over a whole input the counter
  is at most one more than the number of \<open>(\<close> read since a line began, so no input with
  fewer than \<open>2 ^ 64 - 2\<close> opening parentheses can bring it to the maximum, where the
  increment would wrap.
\<close>

theorem expr_nesting_guarded:
  "(state lx = SCAN_EXPR \<longrightarrow>
      expr_nesting (fst (scan_switch e lx (CHR '')'')))
        = (if expr_nesting lx = 0 then 0 else expr_nesting lx - 1)
      \<and> unat (expr_nesting (fst (scan_switch e lx (CHR '')'')))) = unat (expr_nesting lx) - 1
      \<and> expr_nesting (fst (scan_switch e lx (CHR ''(''))) = expr_nesting lx + 1
      \<and> (unat (expr_nesting lx) < 2 ^ 64 - 1 \<longrightarrow>
           unat (expr_nesting (fst (scan_switch e lx (CHR ''('')))) = unat (expr_nesting lx) + 1)
      \<and> expr_nesting (fst (scan_switch e lx EXIT_EXPR)) = 0)
   \<and> (state ln = SCAN_NEWLINE \<longrightarrow>
        expr_nesting (fst (scan_switch e ln ch)) = 0
        \<and> expr_nesting (gcode_lexer_scan e ln [ch]) = 0
        \<and> (xs \<noteq> [] \<longrightarrow>
             unat (expr_nesting (gcode_lexer_scan e ln xs)) \<le> 1 + count_list xs (CHR ''('')))
   \<and> unat (expr_nesting (gcode_lexer_scan e l xs))
        \<le> max 1 (unat (expr_nesting l)) + count_list xs (CHR ''('')"
proof -
  have a: "unat (expr_nesting lx) < 2 ^ 64 - 1 \<Longrightarrow>
      unat (expr_nesting lx + 1) = unat (expr_nesting lx) + 1"
    by (simp add: unat_word_ariths)
  have b: "unat (if expr_nesting lx = 0 then 0 else expr_nesting lx - 1)
      = unat (expr_nesting lx) - 1"
    by (simp add: unat_minus_one)
  show ?thesis
    using a b newline_byte_resets [of ln e ch] nesting_bound_from_newline [of ln xs e]
      nesting_bound [of e l xs] scan_newline_nesting [of ln ch]
    by (simp add: scan_switch_def scan_expr_nesting)
qed

theorem expr_nesting_guarded_witness:
  "state (gcode_lexer_scan env_zero (gcode_lexer_new env_zero [] None) ''G1 X{'') = SCAN_EXPR
   \<and> expr_nesting (gcode_lexer_scan env_zero (gcode_lexer_new env_zero [] None) ''G1 X{'') = 1
   \<and> expr_nesting (fst (scan_switch env_zero
        (gcode_lexer_scan env_zero (gcode_lexer_new env_zero [] None) ''G1 X{'') (CHR '')''))) = 0
   \<and> expr_nesting (fst (scan_switch env_zero
        (gcode_lexer_scan env_zero (gcode_lexer_new env_zero [] None) ''G1 X{'') (CHR ''(''))) = 2
   \<and> state (gcode_lexer_new env_zero [] None) = SCAN_NEWLINE
   \<and> expr_nesting (gcode_lexer_scan env_zero (gcode_lexer_new env_zero [] None) ''G'') = 0
   \<and> unat (expr_nesting (gcode_lexer_scan env_zero (gcode_lexer_new env_zero [] None)
              ''G1 X{((1)+2'')) \<le> 3"
proof -
  let ?lx = "gcode_lexer_scan env_zero (gcode_lexer_new env_zero [] None) ''G1 X{''"
  let ?ln = "gcode_lexer_new env_zero [] None"
  have hx: "state ?lx = SCAN_EXPR" by code_simp
  have nx: "expr_nesting ?lx = 1" by code_simp
  have hn: "state ?ln = SCAN_NEWLINE" by code_simp
  have cnt: "count_list ''G1 X{((1)+2'' (CHR ''('') = 2" by simp
  from expr_nesting_guarded [of ?lx env_zero ?ln "CHR ''G''" "''G1 X{((1)+2''" ?ln] hx nx hn cnt
  show ?thesis by simp
qed

section \<open>Callbacks that return false\<close>

lemma scan_error_run:
  assumes "state l = SCAN_ERROR" "NL \<notin> set xs"
  shows "gcode_lexer_scan e l (xs @ rest) = gcode_lexer_scan e (foldl advance l xs) rest"
proof (rule scan_skipped [where I = "\<lambda>l. state l = SCAN_ERROR" and A = "- {NL}"])
  show "state l = SCAN_ERROR" by fact
  show "set xs \<subseteq> - {NL}" using assms(2) by auto
qed (simp_all add: scan_switch_def scan_error_def)

text \<open>
  Claim C5 fails on the code. A callback that returns false does not always stop the
  lexer. \<^verbatim>\<open>emit_keyword_or_identifier\<close> hands the false result back without setting
  the Error state, unlike every other emit function: after the identifier \<open>a\<close> was
  refused in \<^verbatim>\<open>G1 X{a+1}\<close> the lexer is still in \<^verbatim>\<open>SCAN_IDENTIFIER\<close> and goes on to
  emit \<open>1\<close>, the closing brace and the end of the statement. \<^verbatim>\<open>SCAN_AFTER_EXPR\<close>,
  \<^verbatim>\<open>SCAN_HEX_EXPONENT\<close> and \<^verbatim>\<open>end_arg_segment\<close> assign the next state after
  \<^verbatim>\<open>emit_bridge\<close>, \<^verbatim>\<open>emit_float\<close> and \<^verbatim>\<open>emit_str\<close> whatever these return, so the Error
  state that a refused bridge, float or empty string sets is lost and the rest of the
  line is emitted.
\<close>

theorem refused_call_does_not_stop_emission:
  "calls_refusing (lex_identifier ''a'') (''G1 X{a+1}'' @ [NL]) =
     [lex_identifier ''G1'', lex_str_literal ''X'', lex_keyword [ENTER_EXPR],
      lex_identifier ''a'', lex_identifier ''1'', lex_keyword [EXIT_EXPR],
      lex_end_statement]
   \<and> state_refusing (lex_identifier ''a'') ''G1 X{a+'' = SCAN_IDENTIFIER
   \<and> calls_refusing lex_bridge (''G1 X{1}a'' @ [NL]) =
     [lex_identifier ''G1'', lex_str_literal ''X'', lex_keyword [ENTER_EXPR],
      lex_int_literal 1, lex_keyword [EXIT_EXPR], lex_bridge,
      lex_str_literal ''a'', lex_end_statement]
   \<and> state_refusing lex_bridge ''G1 X{1}a'' = SCAN_ARG_VALUE
   \<and> calls_refusing (lex_float_literal ''0x1p1'') (''G1 X{0x1p1}'' @ [NL]) =
     [lex_identifier ''G1'', lex_str_literal ''X'', lex_keyword [ENTER_EXPR],
      lex_float_literal ''0x1p1'', lex_keyword [EXIT_EXPR], lex_end_statement]
   \<and> state_refusing (lex_float_literal ''0x1p1'') ''G1 X{0x1p1}'' = SCAN_AFTER_EXPR
   \<and> calls_refusing (lex_str_literal []) (''G1 X Y'' @ [NL]) =
     [lex_identifier ''G1'', lex_str_literal ''X'', lex_str_literal [],
      lex_str_literal ''Y'', lex_str_literal [], lex_end_statement]
   \<and> state_refusing (lex_str_literal []) ''G1 X '' = SCAN_ARGS"
  by code_simp

section \<open>Raw arguments\<close>

lemma emit_tok_empty [simp]:
  "tok (fst (emit_ident e l)) = []"
  "tok (fst (emit_str e l)) = []"
  by (simp_all add: tok_def)

lemma enter_args_raw:
  assumes "tok_ok l" "tok l = name" "name = ''M117'' \<or> name = ''ECHO''"
    "token_length l < length (token_str l)" "peek e l (token_length l) = NUL"
  shows "enter_args e l = emit_ident e (l\<lparr>state := SCAN_ARGS, arg_mode := ARG_RAW\<rparr>)"
proof -
  from assms(2,3) have "NUL \<notin> set (tok l)" by auto
  with assms have "c_str (token_str l) = name" using c_str_peek [of l e] by simp
  with assms(3) show ?thesis by (auto simp: enter_args_def Let_def)
qed

lemma scan_args_spaces:
  assumes "state l = SCAN_ARGS" "\<forall>c \<in> set ws. CASE_SPACE c"
  shows "gcode_lexer_scan e l (ws @ rest) = gcode_lexer_scan e (foldl advance l ws) rest"
proof (rule scan_skipped [where I = "\<lambda>l. state l = SCAN_ARGS" and A = "Collect CASE_SPACE"])
  show "state l = SCAN_ARGS" by fact
  show "set ws \<subseteq> Collect CASE_SPACE" using assms(2) by auto
next
  fix l :: GCodeLexer and c
  assume "state l = SCAN_ARGS" "c \<in> Collect CASE_SPACE"
  then show "scan_switch e l c = (l, False)"
    by (auto simp: scan_switch_def scan_args_def CASE_SPACE_def)
qed simp

lemma scan_arg_value_raw_run:
  assumes "state l = SCAN_ARG_VALUE" "arg_mode l = ARG_RAW" "\<forall>c \<in> set cs. raw_char c"
  shows "gcode_lexer_scan e l (cs @ rest) = gcode_lexer_scan e (appended e id l cs) rest"
proof (rule scan_appended
    [where I = "\<lambda>l. state l = SCAN_ARG_VALUE \<and> arg_mode l = ARG_RAW" and A = "Collect raw_char"])
  show "state l = SCAN_ARG_VALUE \<and> arg_mode l = ARG_RAW" using assms by simp
  show "set cs \<subseteq> Collect raw_char" using assms(3) by auto
qed (auto simp: scan_switch_def scan_arg_value_def raw_char_def)

text \<open>
  Where \<^verbatim>\<open>enter_args\<close> finds a NUL byte in the token buffer right after the name \<open>M117\<close>
  or \<open>ECHO\<close>, a text after the blanks that starts with a byte that is no blank, newline,
  semicolon, equals sign, double quote or opening brace, and that holds no double quote,
  opening brace, newline or NUL byte, is emitted as one string, semicolons included.
\<close>

lemma raw_statement_one_string:
  assumes name: "name = ''M117'' \<or> name = ''ECHO''"
    and st: "state l = SCAN_NEWLINE" and len: "token_length l = 0"
    and buf: "token_str l = [] \<or> 4 < length (token_str l)"
    and nul: "peek e l 4 = NUL"
    and ret: "returns e (ctx l) (lex_identifier name)"
    and ws: "CASE_SPACE w" "\<forall>c \<in> set ws. CASE_SPACE c"
    and c: "raw_start c"
    and cs: "\<forall>c \<in> set cs. raw_char c" "NUL \<notin> set (c # cs)"
  shows "ctx (gcode_lexer_scan e l (name @ w # ws @ c # cs @ [NL]))
           = ctx l @ [lex_identifier name, lex_str_literal (c # cs), lex_end_statement]
         \<and> state (gcode_lexer_scan e l (name @ w # ws @ c # cs @ [NL])) = SCAN_NEWLINE"
proof -
  let ?rest1 = "w # ws @ c # cs @ [NL]"
  let ?l1 = "advance (l\<lparr>expr_nesting := 0, state := SCAN_COMMAND_NAME\<rparr>) NUL"
  let ?l2 = "appended e to_upper ?l1 name"
  have up: "map to_upper name = name"
    using name by (auto simp: to_upper_def in_range_def)
  have nc: "\<forall>c \<in> set name. name_char c"
    using name by (auto simp: name_char_def CASE_SPACE_def)
  have l4: "length name = 4" using name by auto
  text \<open>The name: its first byte leaves \<^verbatim>\<open>SCAN_NEWLINE\<close> and is read again.\<close>
  have s1: "gcode_lexer_scan e l (name @ ?rest1) = gcode_lexer_scan e ?l1 (name @ ?rest1)"
    using name st by (auto simp: scan_switch_def scan_newline_def CASE_SPACE_def)
  have s2: "\<dots> = gcode_lexer_scan e ?l2 ?rest1"
    by (rule scan_command_name_run) (simp_all add: nc)
  have ok1: "tok_ok ?l1" using len by (simp add: tok_ok_def)
  have t1: "tok ?l1 = []" using len by (simp add: tok_def)
  from appended_tok [OF ok1, of e to_upper name] t1 up
  have ok2: "tok_ok ?l2" and t2: "tok ?l2 = name" by simp_all
  have tl2: "token_length ?l2 = 4" using len l4 by simp
  have room: "4 < length (token_str ?l2)"
  proof (cases "token_str l = []")
    case True
    then have "128 \<le> length (token_str ?l2)"
      using len name by (intro appended_length_fresh) auto
    then show ?thesis by simp
  next
    case False
    with buf have "4 < length (token_str ?l1)" by simp
    then show ?thesis by (rule appended_length_mono)
  qed
  have pk: "peek e ?l2 4 = NUL"
    using appended_peek [OF ok1, of name 4 e to_upper] len l4 nul by simp
  text \<open>The first blank: \<^verbatim>\<open>enter_args\<close> chooses the raw mode and emits the name.\<close>
  let ?l3 = "fst (emit_ident e (?l2\<lparr>state := SCAN_ARGS, arg_mode := ARG_RAW\<rparr>))"
  have ea: "enter_args e ?l2 = emit_ident e (?l2\<lparr>state := SCAN_ARGS, arg_mode := ARG_RAW\<rparr>)"
    using ok2 t2 name room pk tl2 by (intro enter_args_raw) simp_all
  have s3: "gcode_lexer_scan e ?l2 ?rest1
              = gcode_lexer_scan e (advance ?l3 w) (ws @ c # cs @ [NL])"
    using ws(1) ea by (auto simp: scan_switch_def scan_command_name_def CASE_SPACE_def)
  have nn: "NUL \<notin> set name" using name by auto
  have ctx3: "ctx ?l3 = ctx l @ [lex_identifier name]"
    using emit_ident_ctx [of "?l2\<lparr>state := SCAN_ARGS, arg_mode := ARG_RAW\<rparr>" e] ok2 t2 nn
    by simp
  have st3: "state ?l3 = SCAN_ARGS"
    using emit_ident_state [of "?l2\<lparr>state := SCAN_ARGS, arg_mode := ARG_RAW\<rparr>" e]
      ok2 t2 nn ret
    by simp
  have am3: "arg_mode ?l3 = ARG_RAW" by simp
  text \<open>Further blanks are passed over; the first byte of the text opens the value.\<close>
  let ?l4 = "foldl advance (advance ?l3 w) ws"
  have s4: "gcode_lexer_scan e (advance ?l3 w) (ws @ c # cs @ [NL])
              = gcode_lexer_scan e ?l4 (c # cs @ [NL])"
    using st3 ws(2) by (intro scan_args_spaces) simp_all
  let ?l5 = "advance ((token_char e (TOKEN_START ?l4) c)\<lparr>state := SCAN_ARG_VALUE\<rparr>) c"
  have s5: "gcode_lexer_scan e ?l4 (c # cs @ [NL]) = gcode_lexer_scan e ?l5 (cs @ [NL])"
    using st3 am3 c
    by (auto simp: scan_switch_def scan_args_def raw_start_def raw_char_def Let_def)
  let ?l6 = "appended e id ?l5 cs"
  have s6: "gcode_lexer_scan e ?l5 (cs @ [NL]) = gcode_lexer_scan e ?l6 [NL]"
    using cs(1) by (intro scan_arg_value_raw_run) simp_all
  have ok5: "tok_ok ?l5" and t5: "tok ?l5 = [c]"
    by simp_all
  from appended_tok [OF ok5, of e id cs] t5
  have ok6: "tok_ok ?l6" and t6: "tok ?l6 = c # cs" by simp_all
  have tl6: "token_length ?l6 \<noteq> 0" by simp
  text \<open>The newline emits the text as one string and ends the statement.\<close>
  have s7: "gcode_lexer_scan e ?l6 [NL]
              = advance (emit_end_of_statement e (fst (emit_str e ?l6))) NL"
    using tl6 by (simp add: scan_switch_def scan_arg_value_def emit_possible_str_def)
  have ctx7: "ctx (fst (emit_str e ?l6)) = ctx ?l6 @ [lex_str_literal (c # cs)]"
    using emit_str_ctx [OF ok6, of e] t6 cs(2) by simp
  have "gcode_lexer_scan e l (name @ ?rest1)
          = advance (emit_end_of_statement e (fst (emit_str e ?l6))) NL"
    using s1 s2 s3 s4 s5 s6 s7 by simp
  then show ?thesis using ctx7 ctx3 by simp
qed

text \<open>
  Claim C6 fails on the code. \<^verbatim>\<open>enter_args\<close> compares \<^verbatim>\<open>token_str\<close> with \<open>M117\<close> and
  \<open>ECHO\<close> by \<^verbatim>\<open>strcmp\<close> before the token is terminated, so the comparison reads on into
  the bytes that an earlier, longer token left in the buffer. The first \<^verbatim>\<open>M117\<close> line of a
  new lexer in zero-filled memory is scanned in raw mode; on the second one the buffer
  reads \<open>M117o; World\<close>, the traditional mode is chosen, and the text is emitted as the
  key \<open>H\<close> and the value \<open>ello\<close>, the semicolon starting a comment. The same happens to
  a first \<^verbatim>\<open>M117\<close> line after \<^verbatim>\<open>G1 X100.5\<close>.
\<close>

theorem raw_mode_lost_after_longer_token:
  "calls_of (''M117 Hello; World'' @ [NL] @ ''M117 Hello; World'' @ [NL]) =
     [lex_identifier ''M117'', lex_str_literal ''Hello; World'', lex_end_statement,
      lex_identifier ''M117'', lex_str_literal ''H'', lex_str_literal ''ello'',
      lex_end_statement]
   \<and> calls_of (''G1 X100.5'' @ [NL] @ ''M117 Hello; World'' @ [NL]) =
     [lex_identifier ''G1'', lex_str_literal ''X'', lex_str_literal ''100.5'',
      lex_end_statement,
      lex_identifier ''M117'', lex_str_literal ''H'', lex_str_literal ''ello'',
      lex_end_statement]"
  by code_simp

section \<open>Scenarios\<close>

text \<open>
  Claim C7, as amended. Scanning \<^verbatim>\<open>; just a comment\nG28\n\<close> with a new lexer
  invokes, in this order, the identifier callback with \<open>G28\<close> and the end-of-statement
  callback, and nothing else, whatever the callbacks return and whatever the memory
  held: the line that holds only a comment makes no call.
\<close>

theorem comment_line_then_command:
  "ctx (gcode_lexer_scan e (gcode_lexer_new e c loc)
          (''; just a comment'' @ [NL] @ ''G28'' @ [NL]))
     = c @ [lex_identifier ''G28'', lex_end_statement]"
proof -
  let ?l0 = "gcode_lexer_new e c loc"
  let ?l1 = "advance (?l0\<lparr>expr_nesting := 0, state := SCAN_EMPTY_LINE_COMMENT\<rparr>) (CHR '';'')"
  let ?l2 = "foldl advance ?l1 '' just a comment''"
  let ?l3 = "advance (?l2\<lparr>state := SCAN_NEWLINE\<rparr>) NL"
  let ?l4 = "advance (?l3\<lparr>expr_nesting := 0, state := SCAN_COMMAND_NAME\<rparr>) NUL"
  let ?l5 = "appended e to_upper ?l4 ''G28''"
  have s1: "gcode_lexer_scan e ?l0 (''; just a comment'' @ [NL] @ ''G28'' @ [NL])
      = gcode_lexer_scan e ?l1 ('' just a comment'' @ ([NL] @ ''G28'' @ [NL]))"
    by (simp add: scan_switch_def scan_newline_def CASE_SPACE_def)
  have s2: "\<dots> = gcode_lexer_scan e ?l2 ([NL] @ ''G28'' @ [NL])"
    by (rule scan_empty_line_comment_run) simp_all
  have s3: "\<dots> = gcode_lexer_scan e ?l3 (''G28'' @ [NL])"
    by (simp add: scan_switch_def scan_empty_line_comment_def)
  have s4: "\<dots> = gcode_lexer_scan e ?l4 (''G28'' @ [NL])"
    by (simp add: scan_switch_def scan_newline_def CASE_SPACE_def)
  have s5: "\<dots> = gcode_lexer_scan e ?l5 [NL]"
    by (rule scan_command_name_run) (simp_all add: name_char_def CASE_SPACE_def)
  have s6: "\<dots> = advance (emit_end_of_statement e (fst (emit_ident e ?l5))) NL"
    by (simp add: scan_switch_def scan_command_name_def CASE_SPACE_def)
  have ok: "tok_ok ?l4" and t4: "tok ?l4 = []" by simp_all
  from appended_tok [OF ok, of e to_upper "''G28''"] t4
  have ok5: "tok_ok ?l5" and t5: "tok ?l5 = ''G28''"
    by (simp_all add: to_upper_def in_range_def)
  have "ctx (fst (emit_ident e ?l5)) = ctx ?l5 @ [lex_identifier ''G28'']"
    using emit_ident_ctx [OF ok5, of e] t5 by simp
  then show ?thesis
    unfolding s1 s2 s3 s4 s5 s6 by simp
qed

text \<open>
  Claim C7 as stated fails: the calls are not end-of-statement, identifier \<open>G28\<close>,
  end-of-statement.
\<close>

theorem comment_line_emits_no_end_of_statement:
  "calls_of (''; just a comment'' @ [NL] @ ''G28'' @ [NL])
     \<noteq> [lex_end_statement, lex_identifier ''G28'', lex_end_statement]"
  by code_simp

text \<open>
  Claim C2 fails on the code. \<^verbatim>\<open>emit_int\<close> takes its value as an \<^verbatim>\<open>int\<close>, so the
  accumulated 64-bit value is cut to 32 bits on the way to \<^verbatim>\<open>lex_int_literal\<close>: the
  literal 4294967296 is delivered as 0 and 2147483648 as -2147483648.
\<close>

theorem integer_literal_truncated:
  "calls_of (''G1 X{4294967296}'' @ [NL]) =
     [lex_identifier ''G1'', lex_str_literal ''X'', lex_keyword [ENTER_EXPR],
      lex_int_literal 0, lex_keyword [EXIT_EXPR], lex_end_statement]
   \<and> calls_of (''G1 X{2147483648}'' @ [NL]) =
     [lex_identifier ''G1'', lex_str_literal ''X'', lex_keyword [ENTER_EXPR],
      lex_int_literal (- 2147483648), lex_keyword [EXIT_EXPR], lex_end_statement]"
  by code_simp

text \<open>
  Claim C3 fails on the code. \<^verbatim>\<open>emit_keyword_or_identifier\<close> never consults the keyword
  table: the reserved word \<open>if\<close> in an expression reaches \<^verbatim>\<open>lex_identifier\<close>, in lower
  case, and no keyword callback is made for it.
\<close>

theorem reserved_word_emitted_as_identifier:
  "calls_of (''G1 X{1 IF 2 else 3}'' @ [NL]) =
     [lex_identifier ''G1'', lex_str_literal ''X'', lex_keyword [ENTER_EXPR],
      lex_int_literal 1, lex_identifier ''if'', lex_int_literal 2,
      lex_identifier ''else'', lex_int_literal 3, lex_keyword [EXIT_EXPR],
      lex_end_statement]"
  by code_simp

text \<open>
  Claim C8 fails on the code. \<^verbatim>\<open>hex_digit_to_int\<close> takes the letters up to \<open>Z\<close> for
  digits, so in the string \<^verbatim>\<open>"\xG"\<close> the byte after \<^verbatim>\<open>\x\<close>, which is no hexadecimal
  digit, raises no error: it counts as the digit 16 and the byte 0x10 enters the string.
\<close>

theorem hex_escape_accepts_letter_G:
  "hex_digit_to_int (CHR ''G'') = 16
   \<and> calls_of (''G1 X'' @ [DQUOTE, BACKSLASH] @ ''xG'' @ [DQUOTE, NL]) =
     [lex_identifier ''G1'', lex_str_literal ''X'', lex_str_literal [CHR 0x10],
      lex_end_statement]"
  by code_simp

text \<open>
  Claim C10 fails on the code. \<^verbatim>\<open>gcode_lexer_reset\<close> leaves \<^verbatim>\<open>in_arg_value\<close> and the
  bytes of the token buffer as they were, and both are read before they are written
  again. After \<^verbatim>\<open>G1 X1\<close> and a reset, the line \<^verbatim>\<open>G1 "a" \<close> lacks the empty string
  that a new lexer emits; after \<^verbatim>\<open>HELLO\<close> and a reset, \<^verbatim>\<open>ECHO a;b\<close> is not scanned in
  raw mode, because the buffer reads \<open>ECHOO\<close> when \<^verbatim>\<open>enter_args\<close> compares it.
\<close>

theorem reset_differs_from_new:
  "calls_after_reset (''G1 X1'' @ [NL]) (''G1 '' @ [DQUOTE] @ ''a'' @ [DQUOTE] @ '' '' @ [NL])
     = [lex_identifier ''G1'', lex_str_literal ''a'', lex_end_statement]
   \<and> calls_of (''G1 '' @ [DQUOTE] @ ''a'' @ [DQUOTE] @ '' '' @ [NL])
     = [lex_identifier ''G1'', lex_str_literal ''a'', lex_str_literal [], lex_end_statement]
   \<and> calls_after_reset (''HELLO'' @ [NL]) (''ECHO a;b'' @ [NL]) = [lex_identifier ''ECHO'']
   \<and> calls_of (''ECHO a;b'' @ [NL])
     = [lex_identifier ''ECHO'', lex_str_literal ''a;b'', lex_end_statement]"
  by code_simp

end
